theory Spec2Isabelle
  imports Complex_Main
begin

section \<open>Numbers\<close>

text \<open>
  The program computes with JavaScript numbers. The embedding uses the real numbers for
  every finite number, so rounding is not modelled and "equal within floating-point
  tolerance" reads as equality. The literals \<open>Infinity\<close> and \<open>-Infinity\<close> of the
  source are written out where they occur: \<open>-Infinity\<close> as the constructor \<open>NegInf\<close>
  of \<open>xreal\<close>, and the \<open>Infinity\<close> fallback of the liquidity sizing as \<open>None\<close> of
  \<open>real option\<close>. A number that is absent or not finite in the input is \<open>None\<close> of
  \<open>real option\<close>.

  Where the program divides by zero or takes the root or logarithm of a negative number
  it goes on with \<open>Infinity\<close> or \<open>NaN\<close>, and the embedding, which has the total
  functions of HOL there, no longer follows it. This happens only outside the inputs the
  program is written for: prices are positive, and a range has \<open>0 < lower < upper\<close>.
\<close>

datatype xreal = NegInf | Fin real

text \<open>\<open>a > b\<close> and \<open>a >= b\<close> on numbers that may be \<open>-Infinity\<close>.\<close>

fun xgt :: "xreal \<Rightarrow> xreal \<Rightarrow> bool" where
  "xgt NegInf _ = False"
| "xgt (Fin a) NegInf = True"
| "xgt (Fin a) (Fin b) = (a > b)"

text \<open>\<open>Math.min\<close> on two numbers that may be \<open>Infinity\<close> (\<open>None\<close>).\<close>

fun min_inf :: "real option \<Rightarrow> real option \<Rightarrow> real option" where
  "min_inf None b = b"
| "min_inf (Some a) None = Some a"
| "min_inf (Some a) (Some b) = Some (min a b)"

definition clamp :: "real \<Rightarrow> real \<Rightarrow> real \<Rightarrow> real" where
  "clamp v lo hi = max lo (min hi v)"

section \<open>Concentrated-liquidity math (v3math.ts)\<close>

record v3amounts =
  baseAmount :: real
  quoteAmount :: real

definition getAmountsForLiquidity :: "real \<Rightarrow> real \<Rightarrow> real \<Rightarrow> real \<Rightarrow> v3amounts" where
  "getAmountsForLiquidity liquidity lower upper price =
     (let sqrtLower = sqrt lower; sqrtUpper = sqrt upper; sqrtPrice = sqrt price
      in if price \<le> lower then
           \<lparr>baseAmount = liquidity * (1 / sqrtLower - 1 / sqrtUpper), quoteAmount = 0\<rparr>
         else if price \<ge> upper then
           \<lparr>baseAmount = 0, quoteAmount = liquidity * (sqrtUpper - sqrtLower)\<rparr>
         else
           \<lparr>baseAmount = liquidity * (1 / sqrtPrice - 1 / sqrtUpper),
            quoteAmount = liquidity * (sqrtPrice - sqrtLower)\<rparr>)"

definition getPositionValueUsd :: "real \<Rightarrow> real \<Rightarrow> real \<Rightarrow> real \<Rightarrow> real" where
  "getPositionValueUsd liquidity lower upper price =
     (let a = getAmountsForLiquidity liquidity lower upper price
      in baseAmount a * price + quoteAmount a)"

text \<open>
  The result of \<open>addLiquidityAmounts\<close>. \<open>NonFinite\<close> stands for the one outcome that
  leaves the real numbers: both in-range candidates are the \<open>Infinity\<close> fallback, so
  the liquidity is \<open>Infinity\<close> and the amounts are infinite or NaN.
\<close>

datatype sizing = Sized (baseUsed: real) (quoteUsed: real) (sizedLiquidity: real) | NonFinite

definition addLiquidityAmounts :: "real \<Rightarrow> real \<Rightarrow> real \<Rightarrow> real \<Rightarrow> real \<Rightarrow> sizing" where
  "addLiquidityAmounts baseAvailable quoteAvailable lower upper price =
     (let sqrtLower = sqrt lower; sqrtUpper = sqrt upper;
          effectivePrice = max lower (min upper price);
          sqrtPrice = sqrt effectivePrice
      in if price \<le> lower then
           (let baseDenom = 1 / sqrtLower - 1 / sqrtUpper;
                liquidity = baseAvailable / baseDenom
            in Sized baseAvailable 0 liquidity)
         else if price \<ge> upper then
           (let quoteDenom = sqrtUpper - sqrtLower;
                liquidity = quoteAvailable / quoteDenom
            in Sized 0 quoteAvailable liquidity)
         else
           (let baseDenom = 1 / sqrtPrice - 1 / sqrtUpper;
                quoteDenom = sqrtPrice - sqrtLower;
                liquidityFromBase = (if baseDenom > 0 then Some (baseAvailable / baseDenom) else None);
                liquidityFromQuote = (if quoteDenom > 0 then Some (quoteAvailable / quoteDenom) else None)
            in case min_inf liquidityFromBase liquidityFromQuote of
                 None \<Rightarrow> NonFinite
               | Some liquidity \<Rightarrow> Sized (liquidity * baseDenom) (liquidity * quoteDenom) liquidity))"

definition getEffectiveSwapPrice :: "real \<Rightarrow> real \<Rightarrow> real \<Rightarrow> bool \<Rightarrow> real \<Rightarrow> real \<Rightarrow> real" where
  "getEffectiveSwapPrice midPrice tradeValueUsd poolLiquidityUsd isBuy spreadBps impactBps =
     (let spreadFactor = spreadBps / 10000;
          tradeRatio = tradeValueUsd / poolLiquidityUsd;
          impactFactor = (impactBps / 10000) * (tradeRatio * 100)
      in if isBuy then midPrice * (1 + spreadFactor / 2 + impactFactor)
         else midPrice * (1 - spreadFactor / 2 - impactFactor))"

definition getLiquidityConcentration :: "real \<Rightarrow> real \<Rightarrow> real \<Rightarrow> real" where
  "getLiquidityConcentration lower upper price =
     (let sqrtLower = sqrt lower; sqrtUpper = sqrt upper;
          sqrtPrice = sqrt (max lower (min upper price));
          rangeWidth = sqrtUpper - sqrtLower
      in if rangeWidth \<le> 0 then 1 else sqrtPrice / rangeWidth)"

definition estimateMevCost :: "real \<Rightarrow> real \<Rightarrow> real \<Rightarrow> real \<Rightarrow> real" where
  "estimateMevCost tradeValueUsd poolLiquidityUsd volatility baseMevBps =
     (if tradeValueUsd \<le> 0 \<or> poolLiquidityUsd \<le> 0 then 0
      else
        let tradeRatio = tradeValueUsd / poolLiquidityUsd;
            sizeFactor = min 2 (1 + log 10 (1 + tradeRatio * 100));
            volFactor = max (1 / 2) (min 2 (volatility / (1 / 2)));
            smallTradeDiscount = (if tradeValueUsd < 500 then tradeValueUsd / 500 else 1);
            mevRate = (baseMevBps / 10000) * sizeFactor * volFactor * smallTradeDiscount;
            mevCost = tradeValueUsd * mevRate
        in mevCost)"

definition calculateFeeShare :: "real \<Rightarrow> real \<Rightarrow> real \<Rightarrow> real \<Rightarrow> real \<Rightarrow> real \<Rightarrow> real" where
  "calculateFeeShare positionLiquidity positionLower positionUpper poolTvlUsd currentPrice avgPoolRangeWidth =
     (if currentPrice < positionLower \<or> currentPrice > positionUpper then 0
      else
        let positionConcentration = getLiquidityConcentration positionLower positionUpper currentPrice;
            avgLower = currentPrice * (1 - avgPoolRangeWidth);
            avgUpper = currentPrice * (1 + avgPoolRangeWidth);
            avgPoolConcentration = getLiquidityConcentration avgLower avgUpper currentPrice;
            positionValueUsd = getPositionValueUsd positionLiquidity positionLower positionUpper currentPrice
        in if poolTvlUsd \<le> 0 \<or> positionValueUsd \<ge> poolTvlUsd then 1
           else
             let capitalShare = positionValueUsd / poolTvlUsd;
                 concentrationRatio =
                   (if avgPoolConcentration > 0 then positionConcentration / avgPoolConcentration else 1)
             in min (capitalShare * concentrationRatio) 1)"

section \<open>Strategies (strategies.ts)\<close>

datatype poolType = Volatile | Stable | CL

datatype swapFrom = FromBase | FromQuote

datatype action =
    REMOVE_LIQUIDITY real
  | ADD_LIQUIDITY real real real
  | SWAP swapFrom real
  | CLAIM_REWARDS real
  | NOOP

text \<open>The \<open>type\<close> tag of an action, as the action log records it.\<close>

fun actionType :: "action \<Rightarrow> string" where
  "actionType (REMOVE_LIQUIDITY percent) = ''REMOVE_LIQUIDITY''"
| "actionType (ADD_LIQUIDITY lower upper amountUsd) = ''ADD_LIQUIDITY''"
| "actionType (SWAP from amount) = ''SWAP''"
| "actionType (CLAIM_REWARDS minUsd) = ''CLAIM_REWARDS''"
| "actionType NOOP = ''NOOP''"

record strategyDecision =
  shouldRebalance :: bool
  score :: xreal
  reason :: string
  actions :: "action list"
  strategy :: "string option"

text \<open>
  Field names that several interfaces of the source share carry the interface as a
  prefix here (\<open>pool_price\<close> for \<open>PoolSnapshot.price\<close>, \<open>mp_price\<close> for
  \<open>MarketPoint.price\<close>, and so on).
\<close>

record poolSnapshot =
  pool_type :: poolType
  pool_price :: real
  twapShort :: real
  twapLong :: real
  vol :: real
  pool_feesApr :: real
  pool_emissionsApr :: real
  pool_liquidityUsd :: real
  pool_gasUsd :: real

text \<open>
  The position object. The engine builds it with the fields \<open>lower\<close>, \<open>upper\<close>,
  \<open>liquidity\<close> and \<open>lastRebalanceMs\<close>; the strategies read \<open>lower\<close>, \<open>upper\<close> and
  \<open>liquidityUsd\<close>, a field the engine never sets, so it is optional here and
  \<open>position?.liquidityUsd ?? 0\<close> reads \<open>0\<close> when it is absent.
\<close>

record positionState =
  pos_lower :: real
  pos_upper :: real
  pos_liquidity :: real
  pos_liquidityUsd :: "real option"
  lastRebalanceMs :: real

record vaultState =
  baseBalance :: real
  quoteBalance :: real
  position :: "positionState option"
  unclaimedRewardsUsd :: real

text \<open>
  \<open>RebalanceParams\<close>, with the four optional fields the engine reads through \<open>??\<close>.
\<close>

record rebalanceParams =
  minGasMultiple :: real
  targetRebalanceHours :: real
  bandWidthK :: real
  minBandWidth :: real
  maxBandWidth :: real
  driftThreshold :: real
  trendThreshold :: real
  maxSkew :: real
  rewardsClaimUsd :: real
  swapSpreadBps :: "real option"
  priceImpactBps :: "real option"
  mevBps :: "real option"
  avgPoolRangeWidth :: "real option"

record strategyContext =
  ctx_pool :: poolSnapshot
  ctx_vault :: vaultState
  ctx_params :: rebalanceParams
  nowMs :: real

record strategyRec =
  strat_name :: string
  decide :: "strategyContext \<Rightarrow> strategyDecision"

definition noop :: "string \<Rightarrow> strategyDecision" where
  "noop r = \<lparr>shouldRebalance = False, score = NegInf, reason = r, actions = [NOOP], strategy = None\<rparr>"

definition volToBandWidth :: "real \<Rightarrow> real \<Rightarrow> real \<Rightarrow> real" where
  "volToBandWidth v targetHours k =
     (let yearHours = 365 * 24; stdev = v * sqrt (targetHours / yearHours) in k * stdev)"

definition estimateFeeGain :: "strategyContext \<Rightarrow> real \<Rightarrow> real" where
  "estimateFeeGain ctx capitalUsd =
     (let horizonDays = targetRebalanceHours (ctx_params ctx) / 24;
          feeGain = capitalUsd * pool_feesApr (ctx_pool ctx) * (horizonDays / 365);
          rewardsGain = capitalUsd * pool_emissionsApr (ctx_pool ctx) * (horizonDays / 365)
      in feeGain + rewardsGain)"

definition strategyTotalVaultValue :: "strategyContext \<Rightarrow> real" where
  "strategyTotalVaultValue ctx =
     (let baseValue = baseBalance (ctx_vault ctx) * pool_price (ctx_pool ctx);
          quoteValue = quoteBalance (ctx_vault ctx);
          positionValue =
            (case position (ctx_vault ctx) of
               None \<Rightarrow> 0
             | Some p \<Rightarrow> (case pos_liquidityUsd p of None \<Rightarrow> 0 | Some u \<Rightarrow> u))
      in baseValue + quoteValue + positionValue)"

definition isWorthRebalance :: "real \<Rightarrow> real \<Rightarrow> real \<Rightarrow> bool" where
  "isWorthRebalance gas expectedGainUsd multiple = (expectedGainUsd \<ge> gas * multiple)"

definition bandWidth :: "strategyContext \<Rightarrow> real" where
  "bandWidth ctx =
     clamp (volToBandWidth (vol (ctx_pool ctx)) (targetRebalanceHours (ctx_params ctx))
              (bandWidthK (ctx_params ctx)))
           (minBandWidth (ctx_params ctx)) (maxBandWidth (ctx_params ctx))"

definition priceOutOfRange :: "strategyContext \<Rightarrow> bool" where
  "priceOutOfRange ctx =
     (case position (ctx_vault ctx) of
        None \<Rightarrow> True
      | Some p \<Rightarrow> pool_price (ctx_pool ctx) < pos_lower p \<or> pool_price (ctx_pool ctx) > pos_upper p)"

definition widthChanged :: "strategyContext \<Rightarrow> bool" where
  "widthChanged ctx =
     (case position (ctx_vault ctx) of
        None \<Rightarrow> True
      | Some p \<Rightarrow>
          \<bar>(pos_upper p - pos_lower p) / (2 * twapLong (ctx_pool ctx)) - bandWidth ctx\<bar> > 5 / 1000)"

definition rangeAroundTwapDecide :: "strategyContext \<Rightarrow> strategyDecision" where
  "rangeAroundTwapDecide ctx =
     (if pool_type (ctx_pool ctx) \<noteq> CL then noop ''CL-only strategy''
      else
        let center = twapLong (ctx_pool ctx);
            width = bandWidth ctx;
            lower = center * (1 - width);
            upper = center * (1 + width)
        in if \<not> priceOutOfRange ctx \<and> \<not> widthChanged ctx then noop ''Price inside range; width stable''
           else
             let expectedGainUsd = estimateFeeGain ctx (strategyTotalVaultValue ctx)
             in if \<not> isWorthRebalance (pool_gasUsd (ctx_pool ctx)) expectedGainUsd
                        (minGasMultiple (ctx_params ctx)) then
                  \<lparr>shouldRebalance = False,
                   score = Fin (expectedGainUsd - pool_gasUsd (ctx_pool ctx)),
                   reason = ''Fee gain below gas threshold'',
                   actions = [NOOP], strategy = None\<rparr>
                else
                  \<lparr>shouldRebalance = True,
                   score = Fin (expectedGainUsd - pool_gasUsd (ctx_pool ctx)),
                   reason = (if priceOutOfRange ctx then ''Price out of range''
                             else ''Volatility regime shift''),
                   actions = [REMOVE_LIQUIDITY 1,
                              ADD_LIQUIDITY lower upper (strategyTotalVaultValue ctx)],
                   strategy = None\<rparr>)"

definition trendSkewDecide :: "strategyContext \<Rightarrow> strategyDecision" where
  "trendSkewDecide ctx =
     (if pool_type (ctx_pool ctx) \<noteq> CL then noop ''CL-only strategy''
      else
        let momentum = twapShort (ctx_pool ctx) / twapLong (ctx_pool ctx) - 1
        in if \<bar>momentum\<bar> < trendThreshold (ctx_params ctx) then noop ''No trend signal''
           else
             let skew = clamp (momentum * 2) (- maxSkew (ctx_params ctx)) (maxSkew (ctx_params ctx));
                 center = pool_price (ctx_pool ctx) * (1 + skew);
                 width = bandWidth ctx;
                 lower = center * (1 - width);
                 upper = center * (1 + width);
                 expectedGainUsd = estimateFeeGain ctx (strategyTotalVaultValue ctx)
             in if \<not> isWorthRebalance (pool_gasUsd (ctx_pool ctx)) expectedGainUsd
                        (minGasMultiple (ctx_params ctx)) then
                  \<lparr>shouldRebalance = False,
                   score = Fin (expectedGainUsd - pool_gasUsd (ctx_pool ctx)),
                   reason = ''Trend detected but gas too high'',
                   actions = [NOOP], strategy = None\<rparr>
                else
                  \<lparr>shouldRebalance = True,
                   score = Fin (expectedGainUsd - pool_gasUsd (ctx_pool ctx)),
                   reason = ''Trend skew reposition'',
                   actions = [REMOVE_LIQUIDITY 1,
                              ADD_LIQUIDITY lower upper (strategyTotalVaultValue ctx)],
                   strategy = None\<rparr>)"

definition inventoryTargetDecide :: "strategyContext \<Rightarrow> strategyDecision" where
  "inventoryTargetDecide ctx =
     (if pool_type (ctx_pool ctx) = CL then noop ''Non-CL inventory rebalance''
      else
        let baseValue = baseBalance (ctx_vault ctx) * pool_price (ctx_pool ctx);
            quoteValue = quoteBalance (ctx_vault ctx);
            total = baseValue + quoteValue
        in if total \<le> 0 then noop ''Empty vault''
           else
             let targetBaseValue = total * (1 / 2);
                 drift = (baseValue - targetBaseValue) / total
             in if \<bar>drift\<bar> < driftThreshold (ctx_params ctx) then
                  noop ''Inventory within drift threshold''
                else
                  let valueToSwap = \<bar>baseValue - targetBaseValue\<bar>;
                      expectedGainUsd = estimateFeeGain ctx total
                  in if \<not> isWorthRebalance (pool_gasUsd (ctx_pool ctx)) expectedGainUsd
                             (minGasMultiple (ctx_params ctx)) then
                       \<lparr>shouldRebalance = False,
                        score = Fin (expectedGainUsd - pool_gasUsd (ctx_pool ctx)),
                        reason = ''Inventory drift but gas too high'',
                        actions = [NOOP], strategy = None\<rparr>
                     else
                       let from = (if drift > 0 then FromBase else FromQuote);
                           amount = (if from = FromBase then valueToSwap / pool_price (ctx_pool ctx)
                                     else valueToSwap)
                       in \<lparr>shouldRebalance = True,
                           score = Fin (expectedGainUsd - pool_gasUsd (ctx_pool ctx)),
                           reason = ''Inventory drift rebalance'',
                           actions = [SWAP from amount], strategy = None\<rparr>)"

definition rewardCompoundDecide :: "strategyContext \<Rightarrow> strategyDecision" where
  "rewardCompoundDecide ctx =
     (if unclaimedRewardsUsd (ctx_vault ctx) < rewardsClaimUsd (ctx_params ctx) then
        noop ''Rewards below threshold''
      else
        let expectedGainUsd = unclaimedRewardsUsd (ctx_vault ctx)
        in if \<not> isWorthRebalance (pool_gasUsd (ctx_pool ctx)) expectedGainUsd
                   (minGasMultiple (ctx_params ctx)) then
             \<lparr>shouldRebalance = False,
              score = Fin (expectedGainUsd - pool_gasUsd (ctx_pool ctx)),
              reason = ''Rewards claim below gas threshold'',
              actions = [NOOP], strategy = None\<rparr>
           else
             \<lparr>shouldRebalance = True,
              score = Fin (expectedGainUsd - pool_gasUsd (ctx_pool ctx)),
              reason = ''Compound emissions'',
              actions = [CLAIM_REWARDS (rewardsClaimUsd (ctx_params ctx))],
              strategy = None\<rparr>)"

definition createDefaultStrategies :: "strategyRec list" where
  "createDefaultStrategies =
     [\<lparr>strat_name = ''range-around-twap'', decide = rangeAroundTwapDecide\<rparr>,
      \<lparr>strat_name = ''trend-skew'', decide = trendSkewDecide\<rparr>,
      \<lparr>strat_name = ''inventory-target'', decide = inventoryTargetDecide\<rparr>,
      \<lparr>strat_name = ''reward-compound'', decide = rewardCompoundDecide\<rparr>]"

text \<open>One iteration of the loop of \<open>pickBest\<close>, and the loop.\<close>

definition pickStep :: "strategyContext \<Rightarrow> strategyDecision \<Rightarrow> strategyRec \<Rightarrow> strategyDecision" where
  "pickStep ctx best s =
     (let decision = decide s ctx
      in if shouldRebalance decision \<and> xgt (score decision) (score best)
         then decision\<lparr>strategy := Some (strat_name s)\<rparr>
         else best)"

definition pickBest :: "strategyRec list \<Rightarrow> strategyContext \<Rightarrow> strategyDecision" where
  "pickBest strategies ctx = foldl (pickStep ctx) (noop ''No strategies'') strategies"

section \<open>Backtest engine (backtest/engine.ts, the engine on the V3 math)\<close>

record runningStats =
  st_feesUsd :: real
  st_emissionsUsd :: real
  st_gasUsd :: real
  st_mevUsd :: real
  st_rebalances :: nat

text \<open>
  A market point. \<open>ts\<close> and \<open>price\<close> are finite numbers; the four fields the engine
  tests with \<open>Number.isFinite\<close> are optional, \<open>None\<close> standing for a value that is
  absent or not finite. The fields \<open>volumeUsd\<close> and \<open>feeTier\<close>, which the engine never
  reads, are left out.
\<close>

record marketPoint =
  mp_ts :: real
  mp_price :: real
  mp_feesApr :: "real option"
  mp_emissionsApr :: "real option"
  mp_liquidityUsd :: "real option"
  mp_gasUsd :: "real option"

record windowsCfg =
  volDays :: real
  twapShortHours :: real
  twapLongHours :: real

text \<open>The fields of \<open>BacktestConfig\<close> that the engine reads.\<close>

record backtestConfig =
  cfg_poolType :: poolType
  cfg_symbol :: string
  timeStepMinutes :: real
  lookbackDays :: real
  initialCapitalUsd :: real
  cfg_feesApr :: real
  cfg_emissionsApr :: real
  cfg_liquidityUsd :: real
  cfg_gasUsd :: real
  windows :: windowsCfg
  cfg_rebalanceParams :: rebalanceParams

record equityPoint =
  eq_ts :: real
  valueUsd :: real
  eq_price :: real

record backtestAction =
  act_ts :: real
  act_strategy :: string
  act_reason :: string
  act_actions :: "string list"
  act_gasUsd :: real

record backtestSummary =
  startValueUsd :: real
  endValueUsd :: real
  totalReturnPct :: real
  annualizedReturnPct :: real
  sum_feesUsd :: real
  sum_emissionsUsd :: real
  sum_gasUsd :: real
  sum_mevUsd :: real
  sum_rebalances :: nat
  maxDrawdownPct :: real

record resultMeta =
  generatedAt :: real
  meta_symbol :: string
  meta_poolType :: poolType
  points :: nat

record lastSnapshotRec =
  snap_ts :: real
  snap_price :: real
  snap_twapShort :: real
  snap_twapLong :: real
  snap_vol :: real

record backtestResult =
  meta :: resultMeta
  summary :: backtestSummary
  equityCurve :: "equityPoint list"
  res_actions :: "backtestAction list"
  lastSnapshot :: lastSnapshotRec

text \<open>
  \<open>NoData\<close> is the error \<open>runBacktest\<close> throws on an empty series.
  \<open>NonFiniteLiquidity\<close> marks a run in which \<open>addLiquidityAmounts\<close> returned
  \<open>NonFinite\<close>: the program goes on with balances that are not finite numbers, which
  the embedding does not follow.
\<close>

datatype error = NoData | NonFiniteLiquidity

definition totalVaultValue :: "vaultState \<Rightarrow> real \<Rightarrow> real" where
  "totalVaultValue vault price =
     (let baseValue = baseBalance vault * price;
          quoteValue = quoteBalance vault;
          positionValue =
            (case position vault of
               None \<Rightarrow> 0
             | Some p \<Rightarrow> getPositionValueUsd (pos_liquidity p) (pos_lower p) (pos_upper p) price)
      in baseValue + quoteValue + positionValue)"

text \<open>
  \<open>seedInitialPosition\<close>; \<open>now\<close> is the value \<open>Date.now()\<close> returns at this call.
\<close>

definition seedInitialPosition :: "vaultState \<Rightarrow> poolSnapshot \<Rightarrow> backtestConfig \<Rightarrow> real \<Rightarrow> error + vaultState" where
  "seedInitialPosition vault pool config now =
     (let width = clamp (volToBandWidth (vol pool) (targetRebalanceHours (cfg_rebalanceParams config))
                           (bandWidthK (cfg_rebalanceParams config)))
                        (minBandWidth (cfg_rebalanceParams config))
                        (maxBandWidth (cfg_rebalanceParams config));
          lower = pool_price pool * (1 - width);
          upper = pool_price pool * (1 + width)
      in case addLiquidityAmounts (baseBalance vault) (quoteBalance vault) lower upper (pool_price pool) of
           NonFinite \<Rightarrow> Inl NonFiniteLiquidity
         | Sized bUsed qUsed liquidity \<Rightarrow>
             Inr (vault\<lparr>position := Some \<lparr>pos_lower = lower, pos_upper = upper,
                                           pos_liquidity = liquidity, pos_liquidityUsd = None,
                                           lastRebalanceMs = now\<rparr>,
                        baseBalance := baseBalance vault - bUsed,
                        quoteBalance := quoteBalance vault - qUsed\<rparr>))"

text \<open>\<open>updateVault\<close> returns the vault and the statistics it has updated.\<close>

definition updateVault :: "vaultState \<Rightarrow> poolSnapshot \<Rightarrow> real \<Rightarrow> real \<Rightarrow> real \<Rightarrow> runningStats \<Rightarrow> real \<Rightarrow> vaultState \<times> runningStats" where
  "updateVault vault pool lastPrice price dtDays stats avgWidth =
     (case position vault of
        Some p \<Rightarrow>
          if price \<ge> pos_lower p \<and> price \<le> pos_upper p then
            let feeShare = calculateFeeShare (pos_liquidity p) (pos_lower p) (pos_upper p)
                             (pool_liquidityUsd pool) price avgWidth;
                totalPoolFees = pool_liquidityUsd pool * pool_feesApr pool * (dtDays / 365);
                fees = totalPoolFees * feeShare;
                positionValueUsd = getPositionValueUsd (pos_liquidity p) (pos_lower p) (pos_upper p) price;
                emissionShare = (if pool_liquidityUsd pool > 0
                                 then positionValueUsd / pool_liquidityUsd pool else 0);
                rewards = pool_liquidityUsd pool * pool_emissionsApr pool * (dtDays / 365) * emissionShare
            in (vault\<lparr>quoteBalance := quoteBalance vault + fees,
                       unclaimedRewardsUsd := unclaimedRewardsUsd vault + rewards\<rparr>,
                stats\<lparr>st_feesUsd := st_feesUsd stats + fees,
                       st_emissionsUsd := st_emissionsUsd stats + rewards\<rparr>)
          else (vault, stats)
      | None \<Rightarrow>
          if pool_type pool \<noteq> CL then
            let total = totalVaultValue vault price
            in if total > 0 then
                 let fees = total * pool_feesApr pool * (dtDays / 365);
                     rewards = total * pool_emissionsApr pool * (dtDays / 365)
                 in (vault\<lparr>quoteBalance := quoteBalance vault + fees,
                            unclaimedRewardsUsd := unclaimedRewardsUsd vault + rewards\<rparr>,
                     stats\<lparr>st_feesUsd := st_feesUsd stats + fees,
                            st_emissionsUsd := st_emissionsUsd stats + rewards\<rparr>)
               else (vault, stats)
          else (vault, stats))"

definition removeLiquidity :: "vaultState \<Rightarrow> real \<Rightarrow> real \<Rightarrow> vaultState" where
  "removeLiquidity vault price percent =
     (case position vault of
        None \<Rightarrow> vault
      | Some p \<Rightarrow>
          let clamped = clamp percent 0 1;
              a = getAmountsForLiquidity (pos_liquidity p) (pos_lower p) (pos_upper p) price;
              baseOut = baseAmount a * clamped;
              quoteOut = quoteAmount a * clamped;
              liquidity = pos_liquidity p * (1 - clamped)
          in vault\<lparr>baseBalance := baseBalance vault + baseOut,
                   quoteBalance := quoteBalance vault + quoteOut,
                   position := (if liquidity \<le> 1 / 100 then None
                                else Some (p\<lparr>pos_liquidity := liquidity\<rparr>))\<rparr>)"

definition addLiquidity :: "vaultState \<Rightarrow> real \<Rightarrow> real \<Rightarrow> real \<Rightarrow> real \<Rightarrow> real \<Rightarrow> error + vaultState" where
  "addLiquidity vault price lower upper amountUsd ts =
     (case addLiquidityAmounts (baseBalance vault) (quoteBalance vault) lower upper price of
        NonFinite \<Rightarrow> Inl NonFiniteLiquidity
      | Sized bUsed qUsed liquidity \<Rightarrow>
          if liquidity \<le> 0 then Inr vault
          else Inr (vault\<lparr>baseBalance := baseBalance vault - bUsed,
                          quoteBalance := quoteBalance vault - qUsed,
                          position := Some \<lparr>pos_lower = lower, pos_upper = upper,
                                            pos_liquidity = liquidity, pos_liquidityUsd = None,
                                            lastRebalanceMs = ts\<rparr>\<rparr>))"

definition swapInventory :: "vaultState \<Rightarrow> real \<Rightarrow> swapFrom \<Rightarrow> real \<Rightarrow> real \<Rightarrow> real \<Rightarrow> real \<Rightarrow> vaultState" where
  "swapInventory vault price from amount poolLiquidityUsd spreadBps impactBps =
     (if amount \<le> 0 then vault
      else if from = FromBase then
        let bUsed = min amount (baseBalance vault);
            tradeValueUsd = bUsed * price;
            effectivePrice = getEffectiveSwapPrice price tradeValueUsd poolLiquidityUsd False
                               spreadBps impactBps
        in vault\<lparr>baseBalance := baseBalance vault - bUsed,
                 quoteBalance := quoteBalance vault + bUsed * effectivePrice\<rparr>
      else
        let qUsed = min amount (quoteBalance vault);
            effectivePrice = getEffectiveSwapPrice price qUsed poolLiquidityUsd True
                               spreadBps impactBps
        in vault\<lparr>quoteBalance := quoteBalance vault - qUsed,
                 baseBalance := baseBalance vault + qUsed / effectivePrice\<rparr>)"

definition claimRewards :: "vaultState \<Rightarrow> vaultState" where
  "claimRewards vault =
     (if unclaimedRewardsUsd vault \<le> 0 then vault
      else vault\<lparr>quoteBalance := quoteBalance vault + unclaimedRewardsUsd vault,
                unclaimedRewardsUsd := 0\<rparr>)"

definition deductGas :: "vaultState \<Rightarrow> real \<Rightarrow> real \<Rightarrow> vaultState" where
  "deductGas vault gas price =
     (if gas \<le> 0 then vault
      else if quoteBalance vault \<ge> gas then vault\<lparr>quoteBalance := quoteBalance vault - gas\<rparr>
      else
        let shortfall = gas - quoteBalance vault;
            baseNeeded = shortfall / price
        in vault\<lparr>quoteBalance := 0, baseBalance := max 0 (baseBalance vault - baseNeeded)\<rparr>)"

text \<open>
  The first loop of \<open>applyDecision\<close>: the trade value exposed to MEV, as the pair of
  the swap part and the liquidity part.
\<close>

fun tradeValueStep :: "vaultState \<Rightarrow> poolSnapshot \<Rightarrow> real \<times> real \<Rightarrow> action \<Rightarrow> real \<times> real" where
  "tradeValueStep vault pool (swapV, lpV) (SWAP from amount) =
     (swapV + (if from = FromBase then amount * pool_price pool else amount), lpV)"
| "tradeValueStep vault pool (swapV, lpV) (REMOVE_LIQUIDITY percent) =
     (case position vault of
        Some p \<Rightarrow>
          (swapV, lpV + getPositionValueUsd (pos_liquidity p * percent) (pos_lower p) (pos_upper p)
                          (pool_price pool) * (1 / 10))
      | None \<Rightarrow> (swapV, lpV))"
| "tradeValueStep vault pool (swapV, lpV) (ADD_LIQUIDITY lower upper amountUsd) =
     (swapV, lpV + amountUsd * (1 / 10))"
| "tradeValueStep vault pool (swapV, lpV) (CLAIM_REWARDS minUsd) = (swapV, lpV)"
| "tradeValueStep vault pool (swapV, lpV) NOOP = (swapV, lpV)"

definition totalTradeValueUsd :: "vaultState \<Rightarrow> poolSnapshot \<Rightarrow> action list \<Rightarrow> real" where
  "totalTradeValueUsd vault pool acts =
     (let (swapTradeValueUsd, lpTradeValueUsd) = foldl (tradeValueStep vault pool) (0, 0) acts
      in swapTradeValueUsd + lpTradeValueUsd)"

text \<open>The \<open>switch\<close> of the second loop of \<open>applyDecision\<close>, and that loop.\<close>

fun applyAction :: "vaultState \<Rightarrow> poolSnapshot \<Rightarrow> real \<Rightarrow> real \<Rightarrow> real \<Rightarrow> action \<Rightarrow> error + vaultState" where
  "applyAction vault pool ts spreadBps impactBps (REMOVE_LIQUIDITY percent) =
     Inr (removeLiquidity vault (pool_price pool) percent)"
| "applyAction vault pool ts spreadBps impactBps (ADD_LIQUIDITY lower upper amountUsd) =
     addLiquidity vault (pool_price pool) lower upper amountUsd ts"
| "applyAction vault pool ts spreadBps impactBps (SWAP from amount) =
     Inr (swapInventory vault (pool_price pool) from amount (pool_liquidityUsd pool) spreadBps impactBps)"
| "applyAction vault pool ts spreadBps impactBps (CLAIM_REWARDS minUsd) = Inr (claimRewards vault)"
| "applyAction vault pool ts spreadBps impactBps NOOP = Inr vault"

fun applyActions :: "vaultState \<Rightarrow> poolSnapshot \<Rightarrow> real \<Rightarrow> real \<Rightarrow> real \<Rightarrow> action list \<Rightarrow> error + vaultState" where
  "applyActions vault pool ts spreadBps impactBps [] = Inr vault"
| "applyActions vault pool ts spreadBps impactBps (a # as) =
     (case applyAction vault pool ts spreadBps impactBps a of
        Inl e \<Rightarrow> Inl e
      | Inr vault' \<Rightarrow> applyActions vault' pool ts spreadBps impactBps as)"

text \<open>
  \<open>applyDecision\<close> returns the vault, the statistics and the log entry (\<open>None\<close> for
  \<open>null\<close>, when the decision holds no action other than \<open>NOOP\<close>).
\<close>

definition applyDecision :: "vaultState \<Rightarrow> poolSnapshot \<Rightarrow> strategyDecision \<Rightarrow> runningStats \<Rightarrow> real \<Rightarrow> real \<Rightarrow> real \<Rightarrow> real \<Rightarrow> error + (vaultState \<times> runningStats \<times> backtestAction option)" where
  "applyDecision vault pool decision stats ts spreadBps impactBps mevBpsV =
     (let hasRealAction = list_ex (\<lambda>a. actionType a \<noteq> ''NOOP'') (actions decision)
      in if \<not> hasRealAction then Inr (vault, stats, None)
         else
           let strategyName = (case strategy decision of None \<Rightarrow> ''unknown'' | Some n \<Rightarrow> if n = [] then ''unknown'' else n);
               tradeValue = totalTradeValueUsd vault pool (actions decision);
               vault1 = deductGas vault (pool_gasUsd pool) (pool_price pool);
               stats1 = stats\<lparr>st_gasUsd := st_gasUsd stats + pool_gasUsd pool\<rparr>;
               mevCost = estimateMevCost tradeValue (pool_liquidityUsd pool) (vol pool) mevBpsV;
               vault2 = (if mevCost > 0 then deductGas vault1 mevCost (pool_price pool) else vault1);
               stats2 = (if mevCost > 0 then stats1\<lparr>st_mevUsd := st_mevUsd stats1 + mevCost\<rparr> else stats1);
               stats3 = stats2\<lparr>st_rebalances := st_rebalances stats2 + 1\<rparr>
           in case applyActions vault2 pool ts spreadBps impactBps (actions decision) of
                Inl e \<Rightarrow> Inl e
              | Inr vault3 \<Rightarrow>
                  Inr (vault3, stats3,
                       Some \<lparr>act_ts = ts, act_strategy = strategyName, act_reason = reason decision,
                             act_actions = map actionType (actions decision),
                             act_gasUsd = pool_gasUsd pool\<rparr>))"

text \<open>\<open>Math.round\<close>: the nearest integer, a tie going up.\<close>

definition js_round :: "real \<Rightarrow> int" where
  "js_round x = \<lfloor>x + 1 / 2\<rfloor>"

definition computeTwap :: "real list \<Rightarrow> int \<Rightarrow> real" where
  "computeTwap prices window =
     (if length prices = 0 then 0
      else
        let start = max 0 (int (length prices) - window);
            slice = drop (nat start) prices;
            total = foldl (\<lambda>acc v. acc + v) 0 slice
        in total / real (length slice))"

definition computeAnnualizedVol :: "real list \<Rightarrow> int \<Rightarrow> real \<Rightarrow> real" where
  "computeAnnualizedVol returns window stepMinutes =
     (let size = length returns
      in if size < 2 then 0
         else
           let start = max 0 (int size - window);
               slice = drop (nat start) returns
           in if length slice < 2 then 0
              else
                let mean = foldl (\<lambda>acc v. acc + v) 0 slice / real (length slice);
                    variance = foldl (\<lambda>acc v. acc + (v - mean) ^ 2) 0 slice / real (length slice - 1);
                    stdev = sqrt variance;
                    annualFactor = sqrt ((365 * 24 * 60) / stepMinutes)
                in stdev * annualFactor)"

text \<open>
  The loop of \<open>computeMaxDrawdown\<close> carries the running peak, which starts at
  \<open>-Infinity\<close>, and the largest drawdown so far.
\<close>

definition drawdownStep :: "xreal \<times> real \<Rightarrow> equityPoint \<Rightarrow> xreal \<times> real" where
  "drawdownStep acc point =
     (let peak = (if xgt (Fin (valueUsd point)) (fst acc) then Fin (valueUsd point) else fst acc);
          drawdown = (case peak of
                        NegInf \<Rightarrow> 0
                      | Fin pk \<Rightarrow> if pk > 0 then (pk - valueUsd point) / pk else 0);
          maxDd = (if drawdown > snd acc then drawdown else snd acc)
      in (peak, maxDd))"

definition computeMaxDrawdown :: "equityPoint list \<Rightarrow> real" where
  "computeMaxDrawdown equity = snd (foldl drawdownStep (NegInf, 0) equity) * 100"

definition annualizeReturn :: "real \<Rightarrow> real \<Rightarrow> real" where
  "annualizeReturn totalReturnPctV days =
     (if days \<le> 0 then totalReturnPctV
      else
        let totalReturn = totalReturnPctV / 100;
            years = days / 365;
            annualized = (1 + totalReturn) powr (1 / years) - 1
        in annualized * 100)"

text \<open>
  The variables of the main loop of \<open>runBacktest\<close>. \<open>ls_clockReads\<close> counts the calls
  of \<open>Date.now()\<close> made so far: the clock is the sequence of the values these calls
  return, given to \<open>runBacktest\<close> as a function of the call's number.
\<close>

record loopState =
  ls_vault :: vaultState
  ls_stats :: runningStats
  ls_returns :: "real list"
  ls_prices :: "real list"
  ls_equityCurve :: "equityPoint list"
  ls_actionsLog :: "backtestAction list"
  ls_lastPrice :: real
  ls_clockReads :: nat

text \<open>The pool snapshot of a tick, with the defaults of the configuration filled in.\<close>

definition buildSnapshot :: "backtestConfig \<Rightarrow> marketPoint \<Rightarrow> real \<Rightarrow> real \<Rightarrow> real \<Rightarrow> poolSnapshot" where
  "buildSnapshot config point volV twapShortV twapLongV =
     \<lparr>pool_type = cfg_poolType config,
      pool_price = mp_price point,
      twapShort = twapShortV,
      twapLong = twapLongV,
      vol = volV,
      pool_feesApr = (case mp_feesApr point of Some f \<Rightarrow> f | None \<Rightarrow> cfg_feesApr config),
      pool_emissionsApr = (case mp_emissionsApr point of Some e \<Rightarrow> e | None \<Rightarrow> cfg_emissionsApr config),
      pool_liquidityUsd = (case mp_liquidityUsd point of
                             Some l \<Rightarrow> if l > 0 then l else cfg_liquidityUsd config
                           | None \<Rightarrow> cfg_liquidityUsd config),
      pool_gasUsd = (case mp_gasUsd point of
                       Some g \<Rightarrow> if g \<ge> 0 then g else cfg_gasUsd config
                     | None \<Rightarrow> cfg_gasUsd config)\<rparr>"

text \<open>Lines 93 to 95: the seeding, which reads the clock once when it happens.\<close>

definition seedIfNeeded :: "(nat \<Rightarrow> real) \<Rightarrow> backtestConfig \<Rightarrow> poolSnapshot \<Rightarrow> vaultState \<Rightarrow> nat \<Rightarrow> error + (vaultState \<times> nat)" where
  "seedIfNeeded clock config pool vault reads =
     (if position vault = None \<and> cfg_poolType config = CL then
        (case seedInitialPosition vault pool config (clock reads) of
           Inl e \<Rightarrow> Inl e
         | Inr vault' \<Rightarrow> Inr (vault', Suc reads))
      else Inr (vault, reads))"

text \<open>Lines 104 to 121: the strategy runner and the application of its decision.\<close>

definition decideAndApply :: "backtestConfig \<Rightarrow> nat \<Rightarrow> marketPoint \<Rightarrow> poolSnapshot \<Rightarrow> vaultState \<Rightarrow> runningStats \<Rightarrow> backtestAction list \<Rightarrow> error + (vaultState \<times> runningStats \<times> backtestAction list)" where
  "decideAndApply config i point pool vault stats actionsLog =
     (let ctx = \<lparr>ctx_pool = pool, ctx_vault = vault, ctx_params = cfg_rebalanceParams config,
                 nowMs = mp_ts point\<rparr>
      in if i > 0 then
           let decision = pickBest createDefaultStrategies ctx
           in if shouldRebalance decision then
                (case applyDecision vault pool decision stats (mp_ts point)
                        (case swapSpreadBps (cfg_rebalanceParams config) of None \<Rightarrow> 10 | Some b \<Rightarrow> b)
                        (case priceImpactBps (cfg_rebalanceParams config) of None \<Rightarrow> 5 | Some b \<Rightarrow> b)
                        (case mevBps (cfg_rebalanceParams config) of None \<Rightarrow> 30 | Some b \<Rightarrow> b) of
                   Inl e \<Rightarrow> Inl e
                 | Inr (vault', stats', entry) \<Rightarrow>
                     Inr (vault', stats',
                          (case entry of None \<Rightarrow> actionsLog | Some a \<Rightarrow> actionsLog @ [a])))
              else Inr (vault, stats, actionsLog)
         else Inr (vault, stats, actionsLog))"

text \<open>The body of the main loop, for the point at index \<open>i\<close>.\<close>

definition tick :: "(nat \<Rightarrow> real) \<Rightarrow> backtestConfig \<Rightarrow> int \<Rightarrow> int \<Rightarrow> int \<Rightarrow> nat \<Rightarrow> marketPoint \<Rightarrow> loopState \<Rightarrow> error + loopState" where
  "tick clock config volWindowSteps twapShortSteps twapLongSteps i point s =
     (let price = mp_price point;
          returns = (if i > 0 then ls_returns s @ [ln (price / ls_lastPrice s)] else ls_returns s);
          prices = ls_prices s @ [price];
          volV = computeAnnualizedVol returns volWindowSteps (timeStepMinutes config);
          twapShortV = computeTwap prices twapShortSteps;
          twapLongV = computeTwap prices twapLongSteps;
          pool = buildSnapshot config point volV twapShortV twapLongV;
          dtDays = timeStepMinutes config / (24 * 60);
          avgWidth = (case avgPoolRangeWidth (cfg_rebalanceParams config) of
                        None \<Rightarrow> 2 / 10 | Some w \<Rightarrow> w);
          (vault1, stats1) = updateVault (ls_vault s) pool (ls_lastPrice s) price dtDays (ls_stats s) avgWidth
      in case seedIfNeeded clock config pool vault1 (ls_clockReads s) of
           Inl e \<Rightarrow> Inl e
         | Inr (vault2, reads2) \<Rightarrow>
             (case decideAndApply config i point pool vault2 stats1 (ls_actionsLog s) of
                Inl e \<Rightarrow> Inl e
              | Inr (vault3, stats3, actionsLog3) \<Rightarrow>
                  Inr \<lparr>ls_vault = vault3, ls_stats = stats3, ls_returns = returns, ls_prices = prices,
                       ls_equityCurve = ls_equityCurve s @
                         [\<lparr>eq_ts = mp_ts point, valueUsd = totalVaultValue vault3 price, eq_price = price\<rparr>],
                       ls_actionsLog = actionsLog3, ls_lastPrice = price, ls_clockReads = reads2\<rparr>))"

fun mainLoop :: "(nat \<Rightarrow> real) \<Rightarrow> backtestConfig \<Rightarrow> int \<Rightarrow> int \<Rightarrow> int \<Rightarrow> nat \<Rightarrow> marketPoint list \<Rightarrow> loopState \<Rightarrow> error + loopState" where
  "mainLoop clock config vw tws twl i [] s = Inr s"
| "mainLoop clock config vw tws twl i (point # rest) s =
     (case tick clock config vw tws twl i point s of
        Inl e \<Rightarrow> Inl e
      | Inr s' \<Rightarrow> mainLoop clock config vw tws twl (Suc i) rest s')"

text \<open>Lines 129 to 166: the summary and the result, from the state the loop ends in.\<close>

definition buildResult :: "(nat \<Rightarrow> real) \<Rightarrow> backtestConfig \<Rightarrow> int \<Rightarrow> int \<Rightarrow> int \<Rightarrow> marketPoint list \<Rightarrow> loopState \<Rightarrow> backtestResult" where
  "buildResult clock config vw tws twl series s =
     (let startV = (case ls_equityCurve s of [] \<Rightarrow> initialCapitalUsd config | e # _ \<Rightarrow> valueUsd e);
          endV = (if ls_equityCurve s = [] then startV else valueUsd (last (ls_equityCurve s)));
          totalReturn = ((endV - startV) / startV) * 100;
          annualized = annualizeReturn totalReturn (lookbackDays config);
          lastPoint = last series
      in \<lparr>meta = \<lparr>generatedAt = clock (ls_clockReads s), meta_symbol = cfg_symbol config,
                   meta_poolType = cfg_poolType config, points = length series\<rparr>,
          summary = \<lparr>startValueUsd = startV, endValueUsd = endV, totalReturnPct = totalReturn,
                      annualizedReturnPct = annualized,
                      sum_feesUsd = st_feesUsd (ls_stats s),
                      sum_emissionsUsd = st_emissionsUsd (ls_stats s),
                      sum_gasUsd = st_gasUsd (ls_stats s),
                      sum_mevUsd = st_mevUsd (ls_stats s),
                      sum_rebalances = st_rebalances (ls_stats s),
                      maxDrawdownPct = computeMaxDrawdown (ls_equityCurve s)\<rparr>,
          equityCurve = ls_equityCurve s,
          res_actions = ls_actionsLog s,
          lastSnapshot = \<lparr>snap_ts = mp_ts lastPoint, snap_price = mp_price lastPoint,
                           snap_twapShort = computeTwap (ls_prices s) tws,
                           snap_twapLong = computeTwap (ls_prices s) twl,
                           snap_vol = computeAnnualizedVol (ls_returns s) vw (timeStepMinutes config)\<rparr>\<rparr>)"

definition runBacktest :: "(nat \<Rightarrow> real) \<Rightarrow> backtestConfig \<Rightarrow> marketPoint list \<Rightarrow> error + backtestResult" where
  "runBacktest clock config series =
     (case series of
        [] \<Rightarrow> Inl NoData
      | first # _ \<Rightarrow>
          let volWindowSteps = max 2 (js_round ((volDays (windows config) * 24 * 60) / timeStepMinutes config));
              twapShortSteps = max 2 (js_round ((twapShortHours (windows config) * 60) / timeStepMinutes config));
              twapLongSteps = max 2 (js_round ((twapLongHours (windows config) * 60) / timeStepMinutes config));
              stats = \<lparr>st_feesUsd = 0, st_emissionsUsd = 0, st_gasUsd = 0, st_mevUsd = 0, st_rebalances = 0\<rparr>;
              lastPrice = mp_price first;
              vault = \<lparr>baseBalance = initialCapitalUsd config / 2 / lastPrice,
                       quoteBalance = initialCapitalUsd config / 2,
                       position = None, unclaimedRewardsUsd = 0\<rparr>;
              s0 = \<lparr>ls_vault = vault, ls_stats = stats, ls_returns = [], ls_prices = [],
                    ls_equityCurve = [], ls_actionsLog = [], ls_lastPrice = lastPrice,
                    ls_clockReads = 0\<rparr>
          in case mainLoop clock config volWindowSteps twapShortSteps twapLongSteps 0 series s0 of
               Inl e \<Rightarrow> Inl e
             | Inr s \<Rightarrow> Inr (buildResult clock config volWindowSteps twapShortSteps twapLongSteps series s))"

section \<open>Definitions used to state the properties\<close>

text \<open>
  \<open>isBestAt strategies ctx i\<close>: the decision of the strategy at index \<open>i\<close> wants to
  rebalance, no decision that wants to rebalance has a greater score, and every earlier
  one that wants to rebalance has a strictly smaller score.
\<close>

definition isBestAt :: "strategyRec list \<Rightarrow> strategyContext \<Rightarrow> nat \<Rightarrow> bool" where
  "isBestAt strategies ctx i \<longleftrightarrow>
     i < length strategies \<and>
     shouldRebalance (decide (strategies ! i) ctx) \<and>
     (\<forall>j < length strategies. shouldRebalance (decide (strategies ! j) ctx) \<longrightarrow>
         \<not> xgt (score (decide (strategies ! j) ctx)) (score (decide (strategies ! i) ctx))) \<and>
     (\<forall>j < i. shouldRebalance (decide (strategies ! j) ctx) \<longrightarrow>
         xgt (score (decide (strategies ! i) ctx)) (score (decide (strategies ! j) ctx)))"

text \<open>
  The drawdown as the specification words it: the running peak at index \<open>i\<close> is the
  greatest value up to \<open>i\<close>, the drawdown there is \<open>(peak - value) / peak\<close>, and the
  maximum drawdown is the greatest of these, as a percentage. Where the running peak is
  \<open>0\<close> the quotient is \<open>0\<close>, by the division of the reals in HOL.
\<close>

definition runningPeak :: "real list \<Rightarrow> nat \<Rightarrow> real" where
  "runningPeak vs i = Max (set (take (Suc i) vs))"

definition drawdownAt :: "real list \<Rightarrow> nat \<Rightarrow> real" where
  "drawdownAt vs i = (runningPeak vs i - vs ! i) / runningPeak vs i"

definition maxDrawdownSpec :: "real list \<Rightarrow> real" where
  "maxDrawdownSpec vs = Max (drawdownAt vs ` {..<length vs}) * 100"

text \<open>
  \<open>forgetTime\<close> sets the time stamp of the position, which no function of the engine
  reads, to \<open>0\<close>; \<open>forgetTimeS\<close> does so in a loop state and \<open>forgetTime3\<close> in the
  vault of a triple. \<open>withoutGeneratedAt\<close> sets \<open>meta.generatedAt\<close> of a result to \<open>0\<close>.
\<close>

definition forgetTime :: "vaultState \<Rightarrow> vaultState" where
  "forgetTime v = v\<lparr>position := map_option (\<lambda>p. p\<lparr>lastRebalanceMs := 0\<rparr>) (position v)\<rparr>"

definition forgetTimeS :: "loopState \<Rightarrow> loopState" where
  "forgetTimeS s = s\<lparr>ls_vault := forgetTime (ls_vault s)\<rparr>"

definition forgetTime3 :: "vaultState \<times> runningStats \<times> 'a \<Rightarrow> vaultState \<times> runningStats \<times> 'a" where
  "forgetTime3 x = (forgetTime (fst x), snd x)"

definition withoutGeneratedAt :: "backtestResult \<Rightarrow> backtestResult" where
  "withoutGeneratedAt r = r\<lparr>meta := (meta r)\<lparr>generatedAt := 0\<rparr>\<rparr>"

definition nonnegBalances :: "vaultState \<Rightarrow> bool" where
  "nonnegBalances v \<longleftrightarrow> 0 \<le> baseBalance v \<and> 0 \<le> quoteBalance v"

text \<open>
  The width of a range as a fraction of its own centre, \<open>(upper - lower) / (upper + lower)\<close>:
  the range \<open>[c * (1 - w), c * (1 + w)]\<close> has width \<open>w\<close>.
\<close>

definition rangeWidthOf :: "positionState \<Rightarrow> real" where
  "rangeWidthOf p = (pos_upper p - pos_lower p) / (pos_upper p + pos_lower p)"

text \<open>\<open>eraseAmount\<close> sets the \<open>amountUsd\<close> of an \<open>ADD_LIQUIDITY\<close> action to \<open>0\<close>.\<close>

fun eraseAmount :: "action \<Rightarrow> action" where
  "eraseAmount (ADD_LIQUIDITY lower upper amountUsd) = ADD_LIQUIDITY lower upper 0"
| "eraseAmount a = a"

section \<open>Example inputs\<close>

text \<open>\<open>defaultParams\<close> of strategies.ts.\<close>

definition defaultParams :: rebalanceParams where
  "defaultParams =
     \<lparr>minGasMultiple = 3 / 2, targetRebalanceHours = 12, bandWidthK = 12 / 10,
      minBandWidth = 1 / 100, maxBandWidth = 25 / 100, driftThreshold = 3 / 100,
      trendThreshold = 6 / 1000, maxSkew = 4 / 100, rewardsClaimUsd = 50,
      swapSpreadBps = None, priceImpactBps = None, mevBps = None, avgPoolRangeWidth = None\<rparr>"

definition equityOf :: "real list \<Rightarrow> equityPoint list" where
  "equityOf vs = map (\<lambda>v. \<lparr>eq_ts = 0, valueUsd = v, eq_price = 1\<rparr>) vs"

definition exampleRange :: positionState where
  "exampleRange = \<lparr>pos_lower = 1, pos_upper = 4, pos_liquidity = 2, pos_liquidityUsd = None,
                   lastRebalanceMs = 0\<rparr>"

definition exampleVault :: vaultState where
  "exampleVault = \<lparr>baseBalance = 10, quoteBalance = 50, position = Some exampleRange,
                   unclaimedRewardsUsd = 0\<rparr>"

text \<open>
  A concentrated-liquidity pool at price \<open>5\<close>, above the range \<open>[1, 4]\<close> of
  \<open>exampleRange\<close>, with the given short TWAP and gas cost.
\<close>

definition examplePool :: "real \<Rightarrow> real \<Rightarrow> poolSnapshot" where
  "examplePool short gas =
     \<lparr>pool_type = CL, pool_price = 5, twapShort = short, twapLong = 5, vol = 0,
      pool_feesApr = 1 / 5, pool_emissionsApr = 1 / 5, pool_liquidityUsd = 10000000,
      pool_gasUsd = gas\<rparr>"

definition exampleCtx :: "real \<Rightarrow> real \<Rightarrow> strategyContext" where
  "exampleCtx short gas =
     \<lparr>ctx_pool = examplePool short gas, ctx_vault = exampleVault, ctx_params = defaultParams,
      nowMs = 0\<rparr>"

text \<open>The defaults of config.ts, and a market point at time \<open>t\<close>.\<close>

definition exampleConfig :: backtestConfig where
  "exampleConfig =
     \<lparr>cfg_poolType = CL, cfg_symbol = ''WETH/USDC'', timeStepMinutes = 60, lookbackDays = 30,
      initialCapitalUsd = 10000, cfg_feesApr = 1 / 5, cfg_emissionsApr = 1 / 5,
      cfg_liquidityUsd = 10000000, cfg_gasUsd = 6 / 10,
      windows = \<lparr>volDays = 7, twapShortHours = 6, twapLongHours = 48\<rparr>,
      cfg_rebalanceParams = defaultParams\<rparr>"

definition examplePoint :: "real \<Rightarrow> marketPoint" where
  "examplePoint t =
     \<lparr>mp_ts = t, mp_price = 1800, mp_feesApr = Some (1 / 5), mp_emissionsApr = None,
      mp_liquidityUsd = Some 10000000, mp_gasUsd = Some (6 / 10)\<rparr>"

definition zeroStats :: runningStats where
  "zeroStats = \<lparr>st_feesUsd = 0, st_emissionsUsd = 0, st_gasUsd = 0, st_mevUsd = 0, st_rebalances = 0\<rparr>"

text \<open>
  A rebalance of \<open>exampleVault\<close> into the range \<open>[4.95, 5.05]\<close>, in a pool whose
  liquidity makes the trade value \<open>9\<close> percent of a hundredth of the pool.
\<close>

definition liquidityPool :: poolSnapshot where
  "liquidityPool =
     \<lparr>pool_type = CL, pool_price = 5, twapShort = 5, twapLong = 5, vol = 0,
      pool_feesApr = 1 / 5, pool_emissionsApr = 1 / 5, pool_liquidityUsd = 340 / 3,
      pool_gasUsd = 1 / 100\<rparr>"

definition liquidityDecision :: strategyDecision where
  "liquidityDecision =
     \<lparr>shouldRebalance = True, score = Fin 1, reason = ''Price out of range'',
      actions = [REMOVE_LIQUIDITY 1, ADD_LIQUIDITY (495 / 100) (505 / 100) 100],
      strategy = Some ''range-around-twap''\<rparr>"

text \<open>A swap of \<open>9\<close> base units at price \<open>1\<close> in a pool of liquidity \<open>100\<close>.\<close>

definition swapVault :: vaultState where
  "swapVault = \<lparr>baseBalance = 100, quoteBalance = 100, position = None, unclaimedRewardsUsd = 0\<rparr>"

definition swapPool :: poolSnapshot where
  "swapPool = \<lparr>pool_type = Volatile, pool_price = 1, twapShort = 1, twapLong = 1, vol = 1 / 2,
               pool_feesApr = 1 / 5, pool_emissionsApr = 1 / 5, pool_liquidityUsd = 100,
               pool_gasUsd = 1\<rparr>"

definition swapDecision :: strategyDecision where
  "swapDecision = \<lparr>shouldRebalance = True, score = Fin 1, reason = ''Inventory drift rebalance'',
                   actions = [SWAP FromBase 9], strategy = Some ''inventory-target''\<rparr>"

text \<open>
  A vault of \<open>100000\<close> base units and no quote, at price \<open>1\<close>, in a volatile pool whose
  liquidity is \<open>1000\<close> USD.
\<close>

definition thinPoolVault :: vaultState where
  "thinPoolVault = \<lparr>baseBalance = 100000, quoteBalance = 0, position = None, unclaimedRewardsUsd = 0\<rparr>"

definition thinPoolCtx :: strategyContext where
  "thinPoolCtx =
     \<lparr>ctx_pool = \<lparr>pool_type = Volatile, pool_price = 1, twapShort = 1, twapLong = 1, vol = 1 / 2,
                  pool_feesApr = 1 / 5, pool_emissionsApr = 1 / 5, pool_liquidityUsd = 1000,
                  pool_gasUsd = 6 / 10\<rparr>,
      ctx_vault = thinPoolVault, ctx_params = defaultParams, nowMs = 0\<rparr>"

text \<open>
  A concentrated-liquidity context with a position \<open>[lower, upper]\<close>, the given price and
  long TWAP, no volatility, and the given minimal band width, which is then the computed
  width.
\<close>

definition widthCtx :: "real \<Rightarrow> real \<Rightarrow> real \<Rightarrow> real \<Rightarrow> real \<Rightarrow> strategyContext" where
  "widthCtx lower upper price twap minWidth =
     \<lparr>ctx_pool = \<lparr>pool_type = CL, pool_price = price, twapShort = twap, twapLong = twap, vol = 0,
                  pool_feesApr = 1 / 5, pool_emissionsApr = 1 / 5, pool_liquidityUsd = 10000000,
                  pool_gasUsd = 1 / 100\<rparr>,
      ctx_vault = \<lparr>baseBalance = 10, quoteBalance = 1000,
                   position = Some \<lparr>pos_lower = lower, pos_upper = upper, pos_liquidity = 2,
                                    pos_liquidityUsd = None, lastRebalanceMs = 0\<rparr>,
                   unclaimedRewardsUsd = 0\<rparr>,
      ctx_params = defaultParams\<lparr>minBandWidth := minWidth\<rparr>, nowMs = 0\<rparr>"

text \<open>
  A rebalance of \<open>swapVault\<close> into the range \<open>[1, 4]\<close> at price \<open>5\<close>, with the given
  \<open>amountUsd\<close>, in a pool of liquidity \<open>100\<close>.
\<close>

definition addPool :: poolSnapshot where
  "addPool = \<lparr>pool_type = CL, pool_price = 5, twapShort = 5, twapLong = 5, vol = 1 / 2,
              pool_feesApr = 1 / 5, pool_emissionsApr = 1 / 5, pool_liquidityUsd = 100,
              pool_gasUsd = 1\<rparr>"

definition addDecision :: "real \<Rightarrow> strategyDecision" where
  "addDecision amountUsd =
     \<lparr>shouldRebalance = True, score = Fin 1, reason = ''Price out of range'',
      actions = [REMOVE_LIQUIDITY 1, ADD_LIQUIDITY 1 4 amountUsd],
      strategy = Some ''range-around-twap''\<rparr>"

section \<open>Properties of the liquidity math\<close>

lemma sqrt_denoms:
  assumes "0 < lower" "lower < upper"
  shows "1 / sqrt lower - 1 / sqrt upper > 0" "sqrt upper - sqrt lower > 0"
proof -
  have 1: "sqrt lower < sqrt upper" using assms by simp
  have 2: "0 < sqrt lower" using assms by simp
  show "sqrt upper - sqrt lower > 0" using 1 by simp
  have "1 / sqrt upper < 1 / sqrt lower" using 1 2 by (simp add: frac_less2)
  then show "1 / sqrt lower - 1 / sqrt upper > 0" by linarith
qed

lemma addLiquidityAmounts_round_trip:
  assumes "0 < lower" "lower < upper" "0 < price"
  shows "\<exists>bUsed qUsed L.
           addLiquidityAmounts baseAvailable quoteAvailable lower upper price = Sized bUsed qUsed L \<and>
           getAmountsForLiquidity L lower upper price = \<lparr>baseAmount = bUsed, quoteAmount = qUsed\<rparr>"
proof -
  define bd where "bd = 1 / sqrt lower - 1 / sqrt upper"
  define qd where "qd = sqrt upper - sqrt lower"
  have bd: "bd \<noteq> 0" and qd: "qd \<noteq> 0"
    using sqrt_denoms[OF assms(1,2)] by (simp_all add: bd_def qd_def)
  consider (below) "price \<le> lower" | (above) "lower < price" "upper \<le> price" | (inside) "lower < price" "price < upper"
    by linarith
  then show ?thesis
  proof cases
    case below
    have "baseAvailable / bd * bd = baseAvailable" using bd by simp
    then show ?thesis using below
      by (simp add: addLiquidityAmounts_def getAmountsForLiquidity_def Let_def bd_def)
  next
    case above
    have "quoteAvailable / qd * qd = quoteAvailable" using qd by simp
    then show ?thesis using above
      by (simp add: addLiquidityAmounts_def getAmountsForLiquidity_def Let_def qd_def)
  next
    case inside
    have e: "max lower (min upper price) = price" using inside by simp
    have "sqrt price - sqrt lower > 0" using inside by simp
    then show ?thesis using inside
      by (simp add: addLiquidityAmounts_def getAmountsForLiquidity_def Let_def e split: option.splits)
  qed
qed

lemma addLiquidityAmounts_sized:
  "\<exists>b q L. addLiquidityAmounts baseAvailable quoteAvailable lower upper price = Sized b q L"
proof (cases "lower < price \<and> price < upper")
  case True
  then have "sqrt (max lower (min upper price)) - sqrt lower > 0" by simp
  then show ?thesis using True
    by (simp add: addLiquidityAmounts_def Let_def split: option.splits)
next
  case False
  then show ?thesis by (auto simp add: addLiquidityAmounts_def Let_def)
qed

text \<open>
  Claim C5 (sizing round trip). For \<open>0 < lower < upper\<close>, a positive price and
  non-negative available amounts, \<open>addLiquidityAmounts\<close> returns amounts and a liquidity
  from which \<open>getAmountsForLiquidity\<close>, at the same range and price, gives back exactly
  the amounts used.
\<close>

theorem sizing_round_trip:
  assumes "0 < lower" "lower < upper" "0 < price" "0 \<le> baseAvailable" "0 \<le> quoteAvailable"
  shows "\<exists>bUsed qUsed L.
           addLiquidityAmounts baseAvailable quoteAvailable lower upper price = Sized bUsed qUsed L \<and>
           getAmountsForLiquidity L lower upper price = \<lparr>baseAmount = bUsed, quoteAmount = qUsed\<rparr>"
  using addLiquidityAmounts_round_trip[OF assms(1,2,3)] .

theorem sizing_round_trip_witness:
  "(0::real) < 1 \<and> (1::real) < 4 \<and> (0::real) < 9/4 \<and> (0::real) \<le> 1 \<and>
   (\<exists>bUsed qUsed L.
           addLiquidityAmounts 1 1 1 4 (9/4) = Sized bUsed qUsed L \<and>
           getAmountsForLiquidity L 1 4 (9/4) = \<lparr>baseAmount = bUsed, quoteAmount = qUsed\<rparr>)"
  using sizing_round_trip[of 1 4 "9/4" 1 1] by simp


section \<open>Properties of the vault operations\<close>

text \<open>
  Claim C6 (out-of-range accrual). With an open position and the price strictly below its
  lower bound or strictly above its upper bound, \<open>updateVault\<close> leaves the vault and the
  statistics as they are: no fees and no emissions accrue. \<open>calculateFeeShare\<close> is \<open>0\<close>
  when the price is outside the range, and never more than \<open>1\<close>.
\<close>

theorem out_of_range_accrual:
  "(position vault = Some p \<and> (price < pos_lower p \<or> price > pos_upper p) \<longrightarrow>
      updateVault vault pool lastPrice price dtDays stats avgWidth = (vault, stats)) \<and>
   (currentPrice < lo \<or> currentPrice > hi \<longrightarrow> calculateFeeShare L lo hi tvl currentPrice w = 0) \<and>
   calculateFeeShare L lo hi tvl currentPrice w \<le> 1"
  by (auto simp add: updateVault_def calculateFeeShare_def Let_def)

theorem out_of_range_accrual_witness:
  "updateVault exampleVault (examplePool 5 (1 / 100)) 4 5 1 zeroStats (1 / 5) = (exampleVault, zeroStats) \<and>
   calculateFeeShare 2 1 4 100 5 (1 / 5) = 0 \<and>
   calculateFeeShare 2 1 4 100 (9 / 4) (1 / 5) \<le> 1"
  using out_of_range_accrual[of exampleVault exampleRange 5 "examplePool 5 (1 / 100)" 4 1 zeroStats
          "1 / 5" 5 1 4 2 100 "1 / 5"]
    out_of_range_accrual[of _ _ _ _ _ _ _ _ "9 / 4" 1 4 2 100 "1 / 5"]
  by (simp add: exampleVault_def exampleRange_def)

lemma deductGas_covered:
  assumes "0 < price" "0 \<le> baseBalance v" "0 \<le> quoteBalance v" "0 \<le> g"
    "g \<le> baseBalance v * price + quoteBalance v"
  shows "baseBalance (deductGas v g price) * price + quoteBalance (deductGas v g price) =
           baseBalance v * price + quoteBalance v - g"
    and "0 \<le> baseBalance (deductGas v g price)"
    and "0 \<le> quoteBalance (deductGas v g price)"
    and "position (deductGas v g price) = position v"
proof -
  have pos: "position (deductGas v g price) = position v"
    by (simp add: deductGas_def Let_def)
  show "position (deductGas v g price) = position v" by (rule pos)
  show "0 \<le> baseBalance (deductGas v g price)" using assms by (simp add: deductGas_def Let_def)
  show "0 \<le> quoteBalance (deductGas v g price)" using assms by (simp add: deductGas_def Let_def)
  show "baseBalance (deductGas v g price) * price + quoteBalance (deductGas v g price) =
           baseBalance v * price + quoteBalance v - g"
  proof (cases "g \<le> 0 \<or> quoteBalance v \<ge> g")
    case True
    then show ?thesis using assms by (auto simp add: deductGas_def Let_def)
  next
    case False
    have "(g - quoteBalance v) / price \<le> baseBalance v"
      using assms by (simp add: pos_divide_le_eq)
    then have "max 0 (baseBalance v - (g - quoteBalance v) / price) = baseBalance v - (g - quoteBalance v) / price"
      by simp
    moreover have "(g - quoteBalance v) / price * price = g - quoteBalance v"
      using assms(1) by simp
    ultimately show ?thesis using False
      by (simp add: deductGas_def Let_def left_diff_distrib del: times_divide_eq_left)
  qed
qed

lemma totalVaultValue_balances:
  "position w = position v \<Longrightarrow>
   totalVaultValue w price - totalVaultValue v price =
     (baseBalance w * price + quoteBalance w) - (baseBalance v * price + quoteBalance v)"
  by (simp add: totalVaultValue_def Let_def)

lemma removeLiquidity_full_value:
  "totalVaultValue (removeLiquidity v price 1) price = totalVaultValue v price"
  "position (removeLiquidity v price 1) = None"
  by (cases "position v"; simp add: removeLiquidity_def totalVaultValue_def getPositionValueUsd_def
        clamp_def Let_def algebra_simps)+


lemma addLiquidity_value:
  assumes "0 < lower" "lower < upper" "0 < price" "position v = None"
  shows "\<exists>v'. addLiquidity v price lower upper amountUsd ts = Inr v' \<and>
              totalVaultValue v' price = totalVaultValue v price"
proof -
  obtain bUsed qUsed L where
    sz: "addLiquidityAmounts (baseBalance v) (quoteBalance v) lower upper price = Sized bUsed qUsed L"
    and am: "getAmountsForLiquidity L lower upper price = \<lparr>baseAmount = bUsed, quoteAmount = qUsed\<rparr>"
    using addLiquidityAmounts_round_trip[OF assms(1,2,3)] by blast
  show ?thesis
  proof (cases "L \<le> 0")
    case True
    then show ?thesis using sz by (simp add: addLiquidity_def)
  next
    case False
    then show ?thesis using sz am assms(4)
      by (simp add: addLiquidity_def totalVaultValue_def getPositionValueUsd_def Let_def algebra_simps)
  qed
qed

text \<open>
  Claim C2 (value conservation), as amended. A decision whose actions are a full
  \<open>REMOVE_LIQUIDITY\<close> followed by an \<open>ADD_LIQUIDITY\<close> into a range \<open>0 < lower < upper\<close>, applied
  at a positive price to a vault with non-negative balances whose position, if it has one,
  has \<open>0 < lower < upper\<close>, when the gas cost is not negative and the free balances cover
  the gas and MEV costs: \<open>applyDecision\<close> changes the total vault value by exactly the gas
  and MEV costs it adds to the statistics.
\<close>

theorem liquidity_rebalance_conserves_value:
  assumes acts: "actions decision = [REMOVE_LIQUIDITY 1, ADD_LIQUIDITY lower upper amountUsd]"
    and range: "0 < lower" "lower < upper"
    and price: "0 < pool_price pool"
    and bal: "0 \<le> baseBalance vault" "0 \<le> quoteBalance vault"
    and gas: "0 \<le> pool_gasUsd pool"
    and covered: "pool_gasUsd pool +
              max 0 (estimateMevCost (totalTradeValueUsd vault pool (actions decision))
                       (pool_liquidityUsd pool) (vol pool) mevBpsV)
            \<le> baseBalance vault * pool_price pool + quoteBalance vault"
    and wf: "\<And>p. position vault = Some p \<Longrightarrow> 0 < pos_lower p \<and> pos_lower p < pos_upper p"
  shows "\<exists>vault' stats' entry.
           applyDecision vault pool decision stats ts spreadBps impactBps mevBpsV = Inr (vault', stats', entry) \<and>
           st_gasUsd stats' - st_gasUsd stats = pool_gasUsd pool \<and>
           st_mevUsd stats' - st_mevUsd stats =
             max 0 (estimateMevCost (totalTradeValueUsd vault pool (actions decision))
                      (pool_liquidityUsd pool) (vol pool) mevBpsV) \<and>
           totalVaultValue vault' (pool_price pool) =
             totalVaultValue vault (pool_price pool)
               - (st_gasUsd stats' - st_gasUsd stats) - (st_mevUsd stats' - st_mevUsd stats)"
proof -
  define p where "p = pool_price pool"
  define g where "g = pool_gasUsd pool"
  define mev where "mev = estimateMevCost (totalTradeValueUsd vault pool (actions decision))
                      (pool_liquidityUsd pool) (vol pool) mevBpsV"
  define v1 where "v1 = deductGas vault g p"
  define v2 where "v2 = (if mev > 0 then deductGas v1 mev p else v1)"
  define st' where "st' = (if mev > 0 then (stats\<lparr>st_gasUsd := st_gasUsd stats + g\<rparr>)\<lparr>st_mevUsd := st_mevUsd stats + mev\<rparr>
                           else stats\<lparr>st_gasUsd := st_gasUsd stats + g\<rparr>)\<lparr>st_rebalances := st_rebalances stats + 1\<rparr>"
  have gle: "g \<le> baseBalance vault * p + quoteBalance vault"
    using covered by (simp add: g_def p_def)
  have d1: "baseBalance v1 * p + quoteBalance v1 = baseBalance vault * p + quoteBalance vault - g"
    "0 \<le> baseBalance v1" "0 \<le> quoteBalance v1" "position v1 = position vault"
    unfolding v1_def
    using deductGas_covered[of p vault g] price bal gas gle by (simp_all add: p_def g_def)
  have d2: "baseBalance v2 * p + quoteBalance v2 = baseBalance vault * p + quoteBalance vault - g - max 0 mev
            \<and> position v2 = position vault"
  proof (cases "mev > 0")
    case True
    have "mev \<le> baseBalance v1 * p + quoteBalance v1"
      using covered True d1(1) by (simp add: g_def p_def mev_def)
    then show ?thesis
      using deductGas_covered[of p v1 mev] price d1 True by (simp add: v2_def p_def)
  next
    case False
    then show ?thesis using d1 by (simp add: v2_def)
  qed
  have val2: "totalVaultValue v2 p = totalVaultValue vault p - g - max 0 mev"
    using totalVaultValue_balances[of v2 vault p] d2 by simp
  obtain v3 where v3: "addLiquidity (removeLiquidity v2 p 1) p lower upper amountUsd ts = Inr v3"
    and val3: "totalVaultValue v3 p = totalVaultValue (removeLiquidity v2 p 1) p"
    using addLiquidity_value[OF range, of p "removeLiquidity v2 p 1" amountUsd ts] price
      removeLiquidity_full_value(2)[of v2 p]
    by (auto simp add: p_def)
  have aa: "applyActions v2 pool ts spreadBps impactBps (actions decision) = Inr v3"
    using v3 by (simp add: acts p_def)
  have ad: "applyDecision vault pool decision stats ts spreadBps impactBps mevBpsV =
          Inr (v3, st',
               Some \<lparr>act_ts = ts,
                     act_strategy = (case strategy decision of None \<Rightarrow> ''unknown'' | Some n \<Rightarrow> if n = [] then ''unknown'' else n),
                     act_reason = reason decision, act_actions = map actionType (actions decision),
                     act_gasUsd = g\<rparr>)"
    unfolding applyDecision_def Let_def
    using aa[unfolded v2_def v1_def mev_def g_def p_def] acts
    by (simp add: st'_def mev_def g_def p_def)
  have "totalVaultValue v3 p = totalVaultValue vault p - g - max 0 mev"
    using val3 removeLiquidity_full_value(1)[of v2 p] val2 by simp
  moreover have "st_gasUsd st' - st_gasUsd stats = g" by (simp add: st'_def)
  moreover have "st_mevUsd st' - st_mevUsd stats = max 0 mev" by (simp add: st'_def)
  ultimately show ?thesis
    using ad unfolding p_def g_def mev_def by simp
qed

lemma example_trade_value:
  "totalTradeValueUsd exampleVault liquidityPool (actions liquidityDecision) = 102 / 10"
  by (simp add: totalTradeValueUsd_def liquidityPool_def liquidityDecision_def
        exampleVault_def exampleRange_def getPositionValueUsd_def getAmountsForLiquidity_def Let_def)

lemma example_mev:
  "estimateMevCost (102 / 10) (340 / 3) 0 30 = 62424 / 100000000"
  by (simp add: estimateMevCost_def Let_def)


theorem liquidity_rebalance_conserves_value_witness:
  "\<exists>vault' stats' entry.
     applyDecision exampleVault liquidityPool liquidityDecision zeroStats 0 10 5 30 = Inr (vault', stats', entry) \<and>
     st_gasUsd stats' - st_gasUsd zeroStats = 1 / 100 \<and>
     st_mevUsd stats' - st_mevUsd zeroStats = 62424 / 100000000 \<and>
     totalVaultValue vault' 5 =
       totalVaultValue exampleVault 5 - (st_gasUsd stats' - st_gasUsd zeroStats)
         - (st_mevUsd stats' - st_mevUsd zeroStats)"
proof -
  have acts: "actions liquidityDecision = [REMOVE_LIQUIDITY 1, ADD_LIQUIDITY (495 / 100) (505 / 100) 100]"
    by (simp add: liquidityDecision_def)
  have mev: "estimateMevCost (totalTradeValueUsd exampleVault liquidityPool (actions liquidityDecision))
               (pool_liquidityUsd liquidityPool) (vol liquidityPool) 30 = 62424 / 100000000"
    unfolding example_trade_value using example_mev by (simp add: liquidityPool_def)
  have covered: "pool_gasUsd liquidityPool +
              max 0 (estimateMevCost (totalTradeValueUsd exampleVault liquidityPool (actions liquidityDecision))
                       (pool_liquidityUsd liquidityPool) (vol liquidityPool) 30)
            \<le> baseBalance exampleVault * pool_price liquidityPool + quoteBalance exampleVault"
    unfolding mev by (simp add: liquidityPool_def exampleVault_def)
  show ?thesis
    using liquidity_rebalance_conserves_value[OF acts _ _ _ _ _ _ covered, of zeroStats 0 10 5]
    unfolding mev
    by (simp add: liquidityPool_def exampleVault_def exampleRange_def)
qed

lemma swap_example_trade_value:
  "totalTradeValueUsd swapVault swapPool (actions swapDecision) = 9"
  by (simp add: totalTradeValueUsd_def swapPool_def swapDecision_def)

lemma swap_example_mev: "estimateMevCost 9 100 (1 / 2) 30 = 243 / 250000"
  by (simp add: estimateMevCost_def Let_def)

lemma swap_example_deducted:
  "deductGas (deductGas swapVault 1 1) (243 / 250000) 1 =
     swapVault\<lparr>quoteBalance := 24749757 / 250000\<rparr>"
  by (simp add: deductGas_def swapVault_def)

lemma swap_example_swapped:
  "swapInventory (swapVault\<lparr>quoteBalance := 24749757 / 250000\<rparr>) 1 FromBase 9 100 10 5 =
     swapVault\<lparr>baseBalance := 91, quoteBalance := 26988507 / 250000\<rparr>"
  by (simp add: swapInventory_def getEffectiveSwapPrice_def swapVault_def Let_def)

text \<open>
  The claim C2 as it is stated fails on a swap: the vault sells \<open>9\<close> base units below the
  mid price, and its value falls by \<open>0.045\<close> more than the gas and MEV costs.
\<close>

theorem swap_loses_more_than_costs:
  "\<exists>vault' stats' entry.
     applyDecision swapVault swapPool swapDecision zeroStats 0 10 5 30 = Inr (vault', stats', entry) \<and>
     st_gasUsd stats' - st_gasUsd zeroStats = 1 \<and>
     st_mevUsd stats' - st_mevUsd zeroStats = 972 / 1000000 \<and>
     totalVaultValue vault' (pool_price swapPool) =
       totalVaultValue swapVault (pool_price swapPool)
         - (st_gasUsd stats' - st_gasUsd zeroStats) - (st_mevUsd stats' - st_mevUsd zeroStats) - 45 / 1000"
proof -
  have p: "pool_price swapPool = 1" "pool_gasUsd swapPool = 1" "pool_liquidityUsd swapPool = 100"
    "vol swapPool = 1 / 2"
    by (simp_all add: swapPool_def)
  have a: "actions swapDecision = [SWAP FromBase 9]" by (simp add: swapDecision_def)
  have "applyDecision swapVault swapPool swapDecision zeroStats 0 10 5 30 =
          Inr (swapVault\<lparr>baseBalance := 91, quoteBalance := 26988507 / 250000\<rparr>,
               zeroStats\<lparr>st_gasUsd := 1, st_mevUsd := 243 / 250000, st_rebalances := 1\<rparr>,
               Some \<lparr>act_ts = 0, act_strategy = ''inventory-target'',
                     act_reason = ''Inventory drift rebalance'', act_actions = [''SWAP''],
                     act_gasUsd = 1\<rparr>)"
    unfolding applyDecision_def Let_def swap_example_trade_value p swap_example_mev
    by (simp add: a p swap_example_deducted swap_example_swapped)
       (simp add: swapDecision_def zeroStats_def)
  then show ?thesis
    by (simp add: p totalVaultValue_def swapVault_def zeroStats_def)
qed

lemma deductGas_nonneg: "nonnegBalances v \<Longrightarrow> nonnegBalances (deductGas v g price)"
  by (simp add: nonnegBalances_def deductGas_def Let_def)

lemma claimRewards_nonneg: "nonnegBalances v \<Longrightarrow> nonnegBalances (claimRewards v)"
  by (simp add: nonnegBalances_def claimRewards_def)

lemma removeLiquidity_nonneg:
  assumes "nonnegBalances v"
    and "\<And>p. position v = Some p \<Longrightarrow> 0 < pos_lower p \<and> pos_lower p < pos_upper p \<and> 0 \<le> pos_liquidity p"
  shows "nonnegBalances (removeLiquidity v price percent)"
proof (cases "position v")
  case None
  then show ?thesis using assms(1) by (simp add: removeLiquidity_def)
next
  case (Some p)
  have wf: "0 < pos_lower p" "pos_lower p < pos_upper p" "0 \<le> pos_liquidity p"
    using assms(2)[OF Some] by simp_all
  have c: "0 \<le> clamp percent 0 1" by (simp add: clamp_def)
  have d1: "0 \<le> 1 / sqrt (pos_lower p) - 1 / sqrt (pos_upper p)"
    using sqrt_denoms(1)[OF wf(1,2)] by simp
  have d2: "0 \<le> sqrt (pos_upper p) - sqrt (pos_lower p)"
    using sqrt_denoms(2)[OF wf(1,2)] by simp
  have a: "0 \<le> baseAmount (getAmountsForLiquidity (pos_liquidity p) (pos_lower p) (pos_upper p) price)"
  proof (cases "price \<le> pos_lower p \<or> price \<ge> pos_upper p")
    case True
    then show ?thesis using wf(3) d1 by (auto simp add: getAmountsForLiquidity_def Let_def)
  next
    case False
    then have "0 < price" "price < pos_upper p" using wf(1) by auto
    then have "0 \<le> 1 / sqrt price - 1 / sqrt (pos_upper p)"
      using sqrt_denoms(1)[of price "pos_upper p"] by simp
    then show ?thesis using False wf(3) by (simp add: getAmountsForLiquidity_def Let_def)
  qed
  have b: "0 \<le> quoteAmount (getAmountsForLiquidity (pos_liquidity p) (pos_lower p) (pos_upper p) price)"
  proof (cases "price \<le> pos_lower p \<or> price \<ge> pos_upper p")
    case True
    then show ?thesis using wf(3) d2 by (auto simp add: getAmountsForLiquidity_def Let_def)
  next
    case False
    then have "0 \<le> sqrt price - sqrt (pos_lower p)" by simp
    then show ?thesis using False wf(3) by (simp add: getAmountsForLiquidity_def Let_def)
  qed
  show ?thesis
    using Some assms(1) a b c
    by (simp add: removeLiquidity_def nonnegBalances_def Let_def)
qed

lemma addLiquidity_nonneg:
  assumes "nonnegBalances v" "0 < price" "addLiquidity v price lower upper amountUsd ts = Inr v'"
  shows "nonnegBalances v'"
proof (cases "lower < price \<and> price < upper")
  case False
  then show ?thesis using assms
    by (auto simp add: addLiquidity_def addLiquidityAmounts_def Let_def nonnegBalances_def
          split: if_splits)
next
  case True
  define bd where "bd = 1 / sqrt price - 1 / sqrt upper"
  define qd where "qd = sqrt price - sqrt lower"
  define L where "L = min (baseBalance v / bd) (quoteBalance v / qd)"
  have bd: "0 < bd" using sqrt_denoms(1)[of price upper] assms(2) True by (simp add: bd_def)
  have qd: "0 < qd" using True by (simp add: qd_def)
  have e: "max lower (min upper price) = price" using True by simp
  have sz: "addLiquidityAmounts (baseBalance v) (quoteBalance v) lower upper price = Sized (L * bd) (L * qd) L"
    using True bd qd unfolding addLiquidityAmounts_def Let_def e bd_def[symmetric] qd_def[symmetric]
    by (simp add: L_def)
  have "L \<le> baseBalance v / bd" by (simp add: L_def)
  then have ub: "L * bd \<le> baseBalance v" using bd by (simp add: pos_le_divide_eq)
  have "L \<le> quoteBalance v / qd" by (simp add: L_def)
  then have uq: "L * qd \<le> quoteBalance v" using qd by (simp add: pos_le_divide_eq)
  show ?thesis using assms(1,3) sz ub uq
    by (auto simp add: addLiquidity_def nonnegBalances_def split: if_splits)
qed

lemma swapInventory_buy_nonneg:
  assumes "nonnegBalances v" "0 < price" "0 < poolLiquidityUsd" "0 \<le> spreadBps" "0 \<le> impactBps"
  shows "nonnegBalances (swapInventory v price FromQuote amount poolLiquidityUsd spreadBps impactBps)"
proof (cases "amount \<le> 0")
  case True
  then show ?thesis using assms(1) by (simp add: swapInventory_def)
next
  case False
  define q where "q = min amount (quoteBalance v)"
  have q: "0 \<le> q" "q \<le> quoteBalance v" using False assms(1) by (simp_all add: q_def nonnegBalances_def)
  have "0 \<le> impactBps / 10000 * (q / poolLiquidityUsd * 100)" using assms q by simp
  then have "0 < 1 + spreadBps / 10000 / 2 + impactBps / 10000 * (q / poolLiquidityUsd * 100)"
    using assms(4) by (simp add: add_pos_nonneg)
  then have "0 < getEffectiveSwapPrice price q poolLiquidityUsd True spreadBps impactBps"
    using assms(2) unfolding getEffectiveSwapPrice_def Let_def by (simp del: times_divide_eq_left times_divide_eq_right)
  then have "0 \<le> q / getEffectiveSwapPrice price q poolLiquidityUsd True spreadBps impactBps"
    using q(1) by simp
  then show ?thesis using False q assms(1)
    by (simp add: swapInventory_def Let_def nonnegBalances_def q_def[symmetric])
qed

lemma swapInventory_sell_nonneg:
  assumes "nonnegBalances v"
    and "0 \<le> getEffectiveSwapPrice price (min amount (baseBalance v) * price) poolLiquidityUsd False
                 spreadBps impactBps"
  shows "nonnegBalances (swapInventory v price FromBase amount poolLiquidityUsd spreadBps impactBps)"
proof (cases "amount \<le> 0")
  case True
  then show ?thesis using assms(1) by (simp add: swapInventory_def)
next
  case False
  define b where "b = min amount (baseBalance v)"
  have b: "0 \<le> b" "b \<le> baseBalance v" using False assms(1) by (simp_all add: b_def nonnegBalances_def)
  have "0 \<le> b * getEffectiveSwapPrice price (b * price) poolLiquidityUsd False spreadBps impactBps"
    using b(1) assms(2) by (simp add: b_def)
  then show ?thesis using False b assms(1)
    by (simp add: swapInventory_def Let_def nonnegBalances_def b_def[symmetric])
qed

text \<open>
  Claim C4 (balances never negative) fails in \<open>swapInventory\<close>. The inventory-target
  strategy asks the vault \<open>thinPoolVault\<close> to sell \<open>50000\<close> base units; in a pool of
  liquidity \<open>1000\<close> the price impact makes the effective price \<open>-1.5005\<close>, and the sale
  leaves the quote balance at \<open>-75025\<close>.
\<close>

theorem swap_drives_quote_negative:
  "nonnegBalances thinPoolVault \<and>
   actions (inventoryTargetDecide thinPoolCtx) = [SWAP FromBase 50000] \<and>
   quoteBalance (swapInventory thinPoolVault (pool_price (ctx_pool thinPoolCtx)) FromBase 50000
                   (pool_liquidityUsd (ctx_pool thinPoolCtx)) 10 5) = - 75025"
  by (simp add: nonnegBalances_def thinPoolVault_def thinPoolCtx_def defaultParams_def
        inventoryTargetDecide_def estimateFeeGain_def isWorthRebalance_def noop_def
        swapInventory_def getEffectiveSwapPrice_def Let_def)

lemma log_10_100: "log 10 100 = (2::real)"
proof -
  have a: "log 10 ((10::real) ^ 2) = real 2 * log 10 10" by (rule log_nat_power) simp
  have b: "(10::real) ^ 2 = 100" by simp
  have c: "log 10 (10::real) = 1" by simp
  show ?thesis using a unfolding b c by simp
qed

lemma add_example_mev: "estimateMevCost 99 100 (1 / 2) 30 = 29403 / 250000"
  by (simp add: estimateMevCost_def Let_def log_10_100)


lemma addLiquidity_exhausts:
  assumes "0 < lower" "lower < upper" "0 < price" "nonnegBalances v"
  shows "\<exists>v'. addLiquidity v price lower upper amountUsd ts = Inr v' \<and>
              (baseBalance v' = 0 \<or> quoteBalance v' = 0)"
proof -
  define bd where "bd = 1 / sqrt lower - 1 / sqrt upper"
  define qd where "qd = sqrt upper - sqrt lower"
  have bd: "0 < bd" and qd: "0 < qd"
    using sqrt_denoms[OF assms(1,2)] by (simp_all add: bd_def qd_def)
  have nb: "0 \<le> baseBalance v" and nq: "0 \<le> quoteBalance v"
    using assms(4) by (simp_all add: nonnegBalances_def)
  consider (below) "price \<le> lower" | (above) "lower < price" "upper \<le> price"
    | (inside) "lower < price" "price < upper"
    by linarith
  then show ?thesis
  proof cases
    case below
    have sz: "addLiquidityAmounts (baseBalance v) (quoteBalance v) lower upper price =
                Sized (baseBalance v) 0 (baseBalance v / bd)"
      using below by (simp add: addLiquidityAmounts_def Let_def bd_def)
    show ?thesis
    proof (cases "baseBalance v / bd \<le> 0")
      case True
      then have "baseBalance v \<le> 0" using bd by (simp add: divide_le_0_iff not_less)
      then have "baseBalance v = 0" using nb by simp
      then show ?thesis using sz True by (simp add: addLiquidity_def)
    next
      case False
      then show ?thesis using sz by (simp add: addLiquidity_def)
    qed
  next
    case above
    have sz: "addLiquidityAmounts (baseBalance v) (quoteBalance v) lower upper price =
                Sized 0 (quoteBalance v) (quoteBalance v / qd)"
      using above by (simp add: addLiquidityAmounts_def Let_def qd_def)
    show ?thesis
    proof (cases "quoteBalance v / qd \<le> 0")
      case True
      then have "quoteBalance v \<le> 0" using qd by (simp add: divide_le_0_iff not_less)
      then have "quoteBalance v = 0" using nq by simp
      then show ?thesis using sz True by (simp add: addLiquidity_def)
    next
      case False
      then show ?thesis using sz by (simp add: addLiquidity_def)
    qed
  next
    case inside
    define b where "b = 1 / sqrt price - 1 / sqrt upper"
    define q where "q = sqrt price - sqrt lower"
    define L where "L = min (baseBalance v / b) (quoteBalance v / q)"
    have b: "0 < b" using sqrt_denoms(1)[of price upper] assms(3) inside by (simp add: b_def)
    have q: "0 < q" using inside by (simp add: q_def)
    have e: "max lower (min upper price) = price" using inside by simp
    have sz: "addLiquidityAmounts (baseBalance v) (quoteBalance v) lower upper price =
                Sized (L * b) (L * q) L"
      using inside b q unfolding addLiquidityAmounts_def Let_def e b_def[symmetric] q_def[symmetric]
      by (simp add: L_def)
    have Lcases: "L = baseBalance v / b \<or> L = quoteBalance v / q"
      by (simp add: L_def min_def)
    show ?thesis
    proof (cases "L \<le> 0")
      case True
      have "baseBalance v / b \<le> 0 \<or> quoteBalance v / q \<le> 0"
        using True Lcases by auto
      then have "baseBalance v \<le> 0 \<or> quoteBalance v \<le> 0"
        using b q by (auto simp add: divide_le_0_iff not_less)
      then have "baseBalance v = 0 \<or> quoteBalance v = 0" using nb nq by auto
      then show ?thesis using sz True by (auto simp add: addLiquidity_def)
    next
      case False
      have "L * b = baseBalance v \<or> L * q = quoteBalance v"
        using Lcases b q by auto
      then show ?thesis using sz False by (auto simp add: addLiquidity_def)
    qed
  qed
qed

lemma actionType_eraseAmount: "actionType (eraseAmount a) = actionType a"
  by (cases a) simp_all

lemma applyAction_eraseAmount:
  "applyAction v pool ts sp im (eraseAmount a) = applyAction v pool ts sp im a"
  by (cases a) (simp_all add: addLiquidity_def)

lemma applyActions_eraseAmount:
  "applyActions v pool ts sp im (map eraseAmount acts) = applyActions v pool ts sp im acts"
  by (induction acts arbitrary: v) (simp_all add: applyAction_eraseAmount split: sum.splits)

lemma hasRealAction_types:
  "list_ex (\<lambda>a. actionType a \<noteq> ''NOOP'') acts = list_ex (\<lambda>t. t \<noteq> ''NOOP'') (map actionType acts)"
  by (induction acts) simp_all

lemma actionTypes_eraseAmount: "map actionType (map eraseAmount acts) = map actionType acts"
  by (simp add: actionType_eraseAmount)

lemma applyDecision_amount_through_mev:
  assumes same: "map eraseAmount acts2 = map eraseAmount (actions decision)"
    and mev: "estimateMevCost (totalTradeValueUsd vault pool acts2) (pool_liquidityUsd pool) (vol pool) mv =
              estimateMevCost (totalTradeValueUsd vault pool (actions decision)) (pool_liquidityUsd pool) (vol pool) mv"
  shows "applyDecision vault pool (decision\<lparr>actions := acts2\<rparr>) stats ts sp im mv =
         applyDecision vault pool decision stats ts sp im mv"
proof -
  have ty: "map actionType acts2 = map actionType (actions decision)"
    using arg_cong[OF same, of "map actionType"] by (simp only: actionTypes_eraseAmount)
  have ex: "list_ex (\<lambda>a. actionType a \<noteq> ''NOOP'') acts2 =
            list_ex (\<lambda>a. actionType a \<noteq> ''NOOP'') (actions decision)"
    by (simp only: hasRealAction_types ty)
  have ap: "\<And>v. applyActions v pool ts sp im acts2 = applyActions v pool ts sp im (actions decision)"
    using applyActions_eraseAmount[of _ pool ts sp im acts2]
          applyActions_eraseAmount[of _ pool ts sp im "actions decision"] same by simp
  show ?thesis
    unfolding applyDecision_def Let_def by (simp add: ex ap mev ty cong: sum.case_cong)
qed

text \<open>
  Claim C10 (the amount of an \<open>ADD_LIQUIDITY\<close> action), as amended. \<open>addLiquidity\<close> gives the
  same result for any two values of \<open>amountUsd\<close>: it sizes the liquidity from the whole
  balances of the vault, so that for a range \<open>0 < lower < upper\<close>, a positive price and
  non-negative balances it leaves one of the two balances at \<open>0\<close> and, when no position
  was open, the total value as it was. \<open>applyDecision\<close> reads \<open>amountUsd\<close> for the MEV
  cost only: two decisions that differ in nothing but the \<open>amountUsd\<close> of their actions,
  and have the same MEV cost, give the same vault, statistics and log entry.
\<close>

theorem add_liquidity_ignores_amountUsd:
  "addLiquidity vault price lower upper amountUsd1 ts = addLiquidity vault price lower upper amountUsd2 ts \<and>
   (0 < lower \<and> lower < upper \<and> 0 < price \<and> nonnegBalances vault \<longrightarrow>
      (\<exists>vault'. addLiquidity vault price lower upper amountUsd1 ts = Inr vault' \<and>
                 (baseBalance vault' = 0 \<or> quoteBalance vault' = 0) \<and>
                 (position vault = None \<longrightarrow>
                    totalVaultValue vault' price = totalVaultValue vault price))) \<and>
   (map eraseAmount acts2 = map eraseAmount (actions decision) \<and>
    estimateMevCost (totalTradeValueUsd vault pool acts2) (pool_liquidityUsd pool) (vol pool) mevBpsV =
      estimateMevCost (totalTradeValueUsd vault pool (actions decision)) (pool_liquidityUsd pool)
        (vol pool) mevBpsV \<longrightarrow>
      applyDecision vault pool (decision\<lparr>actions := acts2\<rparr>) stats ts spreadBps impactBps mevBpsV =
      applyDecision vault pool decision stats ts spreadBps impactBps mevBpsV)"
proof (intro conjI impI)
  show "addLiquidity vault price lower upper amountUsd1 ts = addLiquidity vault price lower upper amountUsd2 ts"
    by (simp add: addLiquidity_def)
next
  assume h: "0 < lower \<and> lower < upper \<and> 0 < price \<and> nonnegBalances vault"
  then obtain v' where v': "addLiquidity vault price lower upper amountUsd1 ts = Inr v'"
    and z: "baseBalance v' = 0 \<or> quoteBalance v' = 0"
    using addLiquidity_exhausts[of lower upper price vault amountUsd1 ts] by blast
  have "position vault = None \<longrightarrow> totalVaultValue v' price = totalVaultValue vault price"
  proof
    assume "position vault = None"
    then show "totalVaultValue v' price = totalVaultValue vault price"
      using addLiquidity_value[of lower upper price vault amountUsd1 ts] h v' by auto
  qed
  then show "\<exists>vault'. addLiquidity vault price lower upper amountUsd1 ts = Inr vault' \<and>
                 (baseBalance vault' = 0 \<or> quoteBalance vault' = 0) \<and>
                 (position vault = None \<longrightarrow>
                    totalVaultValue vault' price = totalVaultValue vault price)"
    using v' z by (intro exI[of _ v']) simp
next
  assume "map eraseAmount acts2 = map eraseAmount (actions decision) \<and>
    estimateMevCost (totalTradeValueUsd vault pool acts2) (pool_liquidityUsd pool) (vol pool) mevBpsV =
      estimateMevCost (totalTradeValueUsd vault pool (actions decision)) (pool_liquidityUsd pool)
        (vol pool) mevBpsV"
  then show "applyDecision vault pool (decision\<lparr>actions := acts2\<rparr>) stats ts spreadBps impactBps mevBpsV =
      applyDecision vault pool decision stats ts spreadBps impactBps mevBpsV"
    using applyDecision_amount_through_mev by blast
qed

lemma add_example_trade_value:
  "totalTradeValueUsd swapVault addPool (actions (addDecision a)) = a / 10"
  by (simp add: totalTradeValueUsd_def swapVault_def addDecision_def)

lemma add_example_no_mev: "estimateMevCost t l v 0 = 0"
  by (simp add: estimateMevCost_def Let_def)

theorem add_liquidity_ignores_amountUsd_witness:
  "(\<exists>vault'. addLiquidity swapVault 5 1 4 90 0 = Inr vault' \<and>
              (baseBalance vault' = 0 \<or> quoteBalance vault' = 0) \<and>
              totalVaultValue vault' 5 = totalVaultValue swapVault 5) \<and>
   applyDecision swapVault addPool (addDecision 990) zeroStats 0 10 5 0 =
   applyDecision swapVault addPool (addDecision 90) zeroStats 0 10 5 0"
proof -
  have a: "0 < (1::real) \<and> (1::real) < 4 \<and> (0::real) < 5 \<and> nonnegBalances swapVault"
    by (simp add: nonnegBalances_def swapVault_def)
  have n: "position swapVault = None" by (simp add: swapVault_def)
  have e: "map eraseAmount (actions (addDecision 990)) = map eraseAmount (actions (addDecision 90))"
    by (simp add: addDecision_def)
  have d: "(addDecision 90)\<lparr>actions := actions (addDecision 990)\<rparr> = addDecision 990"
    by (simp add: addDecision_def)
  show ?thesis
    using add_liquidity_ignores_amountUsd[of swapVault 5 1 4 90 0 90 "actions (addDecision 990)"
            "addDecision 90" addPool 0 zeroStats 10 5]
          a n e d
    by (simp add: add_example_no_mev)
qed

lemma add_example_deducted:
  "0 < m \<Longrightarrow> m \<le> 99 \<Longrightarrow>
   deductGas (deductGas swapVault 1 5) m 5 = swapVault\<lparr>quoteBalance := 99 - m\<rparr>"
  by (simp add: deductGas_def swapVault_def)

lemma add_example_sized:
  "0 < q \<Longrightarrow>
   applyActions (swapVault\<lparr>quoteBalance := q\<rparr>) addPool 0 10 5 [REMOVE_LIQUIDITY 1, ADD_LIQUIDITY 1 4 a] =
     Inr (swapVault\<lparr>quoteBalance := 0,
            position := Some \<lparr>pos_lower = 1, pos_upper = 4, pos_liquidity = q,
                             pos_liquidityUsd = None, lastRebalanceMs = 0\<rparr>\<rparr>)"
  by (simp add: removeLiquidity_def addLiquidity_def addLiquidityAmounts_def swapVault_def addPool_def
        Let_def)

lemma add_example_applied:
  assumes "0 < m" "m < 99" "estimateMevCost (a / 10) 100 (1 / 2) 30 = m"
  shows "applyDecision swapVault addPool (addDecision a) zeroStats 0 10 5 30 =
          Inr (swapVault\<lparr>quoteBalance := 0,
                 position := Some \<lparr>pos_lower = 1, pos_upper = 4, pos_liquidity = 99 - m,
                                  pos_liquidityUsd = None, lastRebalanceMs = 0\<rparr>\<rparr>,
               zeroStats\<lparr>st_gasUsd := 1, st_mevUsd := m, st_rebalances := 1\<rparr>,
               Some \<lparr>act_ts = 0, act_strategy = ''range-around-twap'',
                     act_reason = ''Price out of range'',
                     act_actions = [''REMOVE_LIQUIDITY'', ''ADD_LIQUIDITY''], act_gasUsd = 1\<rparr>)"
proof -
  have p: "pool_price addPool = 5" "pool_gasUsd addPool = 1" "pool_liquidityUsd addPool = 100"
    "vol addPool = 1 / 2"
    by (simp_all add: addPool_def)
  have acts: "actions (addDecision a) = [REMOVE_LIQUIDITY 1, ADD_LIQUIDITY 1 4 a]"
    by (simp add: addDecision_def)
  have ded: "deductGas (deductGas swapVault 1 5) m 5 = swapVault\<lparr>quoteBalance := 99 - m\<rparr>"
    using add_example_deducted assms by simp
  have sz: "applyActions (swapVault\<lparr>quoteBalance := 99 - m\<rparr>) addPool 0 10 5
              [REMOVE_LIQUIDITY 1, ADD_LIQUIDITY 1 4 a] =
     Inr (swapVault\<lparr>quoteBalance := 0,
            position := Some \<lparr>pos_lower = 1, pos_upper = 4, pos_liquidity = 99 - m,
                             pos_liquidityUsd = None, lastRebalanceMs = 0\<rparr>\<rparr>)"
    using add_example_sized[of "99 - m" a] assms by simp
  show ?thesis
    unfolding applyDecision_def Let_def add_example_trade_value p assms(3)
    using assms(1)
    by (simp add: acts ded sz p del: applyActions.simps) (simp add: addDecision_def zeroStats_def)
qed

text \<open>
  The claim C10 as it is stated fails in the engine: the same vault, price and range with
  \<open>amountUsd\<close> \<open>90\<close> and \<open>990\<close> give MEV deductions of \<open>0.000972\<close> and \<open>0.117612\<close>, and
  positions of different liquidity.
\<close>

theorem amountUsd_changes_mev_deduction:
  "\<exists>v1 s1 e1 v2 s2 e2.
     applyDecision swapVault addPool (addDecision 90) zeroStats 0 10 5 30 = Inr (v1, s1, e1) \<and>
     applyDecision swapVault addPool (addDecision 990) zeroStats 0 10 5 30 = Inr (v2, s2, e2) \<and>
     map_option pos_liquidity (position v1) = Some (24749757 / 250000) \<and>
     map_option pos_liquidity (position v2) = Some (24720597 / 250000) \<and>
     v1 \<noteq> v2"
proof -
  have m1: "estimateMevCost (90 / 10) 100 (1 / 2) 30 = 243 / 250000"
    using swap_example_mev by simp
  have m2: "estimateMevCost (990 / 10) 100 (1 / 2) 30 = 29403 / 250000"
    using add_example_mev by simp
  have r1: "applyDecision swapVault addPool (addDecision 90) zeroStats 0 10 5 30 =
          Inr (swapVault\<lparr>quoteBalance := 0,
                 position := Some \<lparr>pos_lower = 1, pos_upper = 4, pos_liquidity = 99 - 243 / 250000,
                                  pos_liquidityUsd = None, lastRebalanceMs = 0\<rparr>\<rparr>,
               zeroStats\<lparr>st_gasUsd := 1, st_mevUsd := 243 / 250000, st_rebalances := 1\<rparr>,
               Some \<lparr>act_ts = 0, act_strategy = ''range-around-twap'',
                     act_reason = ''Price out of range'',
                     act_actions = [''REMOVE_LIQUIDITY'', ''ADD_LIQUIDITY''], act_gasUsd = 1\<rparr>)"
    by (rule add_example_applied[OF _ _ m1]) simp_all
  have r2: "applyDecision swapVault addPool (addDecision 990) zeroStats 0 10 5 30 =
          Inr (swapVault\<lparr>quoteBalance := 0,
                 position := Some \<lparr>pos_lower = 1, pos_upper = 4, pos_liquidity = 99 - 29403 / 250000,
                                  pos_liquidityUsd = None, lastRebalanceMs = 0\<rparr>\<rparr>,
               zeroStats\<lparr>st_gasUsd := 1, st_mevUsd := 29403 / 250000, st_rebalances := 1\<rparr>,
               Some \<lparr>act_ts = 0, act_strategy = ''range-around-twap'',
                     act_reason = ''Price out of range'',
                     act_actions = [''REMOVE_LIQUIDITY'', ''ADD_LIQUIDITY''], act_gasUsd = 1\<rparr>)"
    by (rule add_example_applied[OF _ _ m2]) simp_all
  show ?thesis unfolding r1 r2 by (simp add: swapVault_def)
qed

section \<open>Properties of the strategies\<close>

text \<open>
  Claim C7 (Range-Around-TWAP), as amended. In a concentrated-liquidity pool the
  evaluator wants to rebalance exactly when its trigger holds and the expected gain
  reaches the gas cost times \<open>minGasMultiple\<close>. The trigger is: the vault has no position,
  or the price is below the lower or above the upper bound of the position, or
  \<open>(upper - lower) / (2 * twapLong)\<close>, the half-width of the position measured against the
  long TWAP, differs from the computed width by more than \<open>0.005\<close>. A decision that
  rebalances carries the score \<open>gain - gas\<close> and the actions \<open>REMOVE_LIQUIDITY 1\<close> and
  \<open>ADD_LIQUIDITY\<close> into the computed width around the long TWAP; one that does not carries
  the single action \<open>NOOP\<close>, with the score \<open>gain - gas\<close> when the trigger holds and the
  gain is below the threshold, and \<open>-Infinity\<close> when the trigger does not hold. The
  computed width is \<open>clamp (k * \<sigma> * sqrt (targetHours / yearHours)) minWidth maxWidth\<close>.
\<close>

theorem range_around_twap_trigger:
  assumes "pool_type (ctx_pool ctx) = CL"
  shows "(shouldRebalance (rangeAroundTwapDecide ctx) \<longleftrightarrow>
            (case position (ctx_vault ctx) of
               None \<Rightarrow> True
             | Some p \<Rightarrow>
                 pool_price (ctx_pool ctx) < pos_lower p \<or> pool_price (ctx_pool ctx) > pos_upper p \<or>
                 \<bar>(pos_upper p - pos_lower p) / (2 * twapLong (ctx_pool ctx)) - bandWidth ctx\<bar> > 5 / 1000) \<and>
            estimateFeeGain ctx (strategyTotalVaultValue ctx)
              \<ge> pool_gasUsd (ctx_pool ctx) * minGasMultiple (ctx_params ctx)) \<and>
         (shouldRebalance (rangeAroundTwapDecide ctx) \<longrightarrow>
            score (rangeAroundTwapDecide ctx) =
              Fin (estimateFeeGain ctx (strategyTotalVaultValue ctx) - pool_gasUsd (ctx_pool ctx)) \<and>
            actions (rangeAroundTwapDecide ctx) =
              [REMOVE_LIQUIDITY 1,
               ADD_LIQUIDITY (twapLong (ctx_pool ctx) * (1 - bandWidth ctx))
                             (twapLong (ctx_pool ctx) * (1 + bandWidth ctx))
                             (strategyTotalVaultValue ctx)]) \<and>
         (\<not> shouldRebalance (rangeAroundTwapDecide ctx) \<longrightarrow>
            actions (rangeAroundTwapDecide ctx) = [NOOP]) \<and>
         ((priceOutOfRange ctx \<or> widthChanged ctx) \<and>
          estimateFeeGain ctx (strategyTotalVaultValue ctx)
              < pool_gasUsd (ctx_pool ctx) * minGasMultiple (ctx_params ctx) \<longrightarrow>
            \<not> shouldRebalance (rangeAroundTwapDecide ctx) \<and>
            score (rangeAroundTwapDecide ctx) =
              Fin (estimateFeeGain ctx (strategyTotalVaultValue ctx) - pool_gasUsd (ctx_pool ctx))) \<and>
         (\<not> priceOutOfRange ctx \<and> \<not> widthChanged ctx \<longrightarrow>
            score (rangeAroundTwapDecide ctx) = NegInf) \<and>
         bandWidth ctx =
           clamp (bandWidthK (ctx_params ctx) *
                    (vol (ctx_pool ctx) * sqrt (targetRebalanceHours (ctx_params ctx) / (365 * 24))))
                 (minBandWidth (ctx_params ctx)) (maxBandWidth (ctx_params ctx))"
  using assms
  by (auto simp add: rangeAroundTwapDecide_def priceOutOfRange_def widthChanged_def Let_def noop_def
        isWorthRebalance_def bandWidth_def volToBandWidth_def split: option.splits)

theorem range_around_twap_trigger_witness:
  "pool_type (ctx_pool (exampleCtx 5 (1 / 100))) = CL \<and>
   shouldRebalance (rangeAroundTwapDecide (exampleCtx 5 (1 / 100))) \<and>
   actions (rangeAroundTwapDecide (exampleCtx 5 (1 / 100))) =
     [REMOVE_LIQUIDITY 1, ADD_LIQUIDITY (495 / 100) (505 / 100) 100] \<and>
   \<not> shouldRebalance (rangeAroundTwapDecide (exampleCtx 5 (6 / 10))) \<and>
   score (rangeAroundTwapDecide (exampleCtx 5 (6 / 10))) = Fin (20 / 365 - 6 / 10) \<and>
   actions (rangeAroundTwapDecide (exampleCtx 5 (6 / 10))) = [NOOP]"
  using range_around_twap_trigger[of "exampleCtx 5 (1 / 100)"]
        range_around_twap_trigger[of "exampleCtx 5 (6 / 10)"]
  by (simp add: exampleCtx_def examplePool_def exampleVault_def exampleRange_def defaultParams_def
        estimateFeeGain_def strategyTotalVaultValue_def priceOutOfRange_def clamp_def)

lemma widthCtx_bandWidth: "0 < m \<Longrightarrow> m \<le> 25 / 100 \<Longrightarrow> bandWidth (widthCtx lo hi p t m) = m"
  by (simp add: bandWidth_def widthCtx_def defaultParams_def volToBandWidth_def clamp_def)

lemma widthCtx_parts:
  "ctx_pool (widthCtx lo hi p t m) =
     \<lparr>pool_type = CL, pool_price = p, twapShort = t, twapLong = t, vol = 0,
      pool_feesApr = 1 / 5, pool_emissionsApr = 1 / 5, pool_liquidityUsd = 10000000,
      pool_gasUsd = 1 / 100\<rparr>"
  "ctx_vault (widthCtx lo hi p t m) =
     \<lparr>baseBalance = 10, quoteBalance = 1000,
      position = Some \<lparr>pos_lower = lo, pos_upper = hi, pos_liquidity = 2,
                       pos_liquidityUsd = None, lastRebalanceMs = 0\<rparr>,
      unclaimedRewardsUsd = 0\<rparr>"
  "ctx_params (widthCtx lo hi p t m) = defaultParams\<lparr>minBandWidth := m\<rparr>"
  by (simp_all add: widthCtx_def)

text \<open>
  The claim C7 as it is stated fails for the width of the range itself. The range
  \<open>[90, 110]\<close> has the computed width \<open>0.1\<close> and holds the price \<open>93\<close>, and with the long
  TWAP at \<open>95\<close> the evaluator rebalances; the range \<open>[98.4, 101.6]\<close> has width \<open>0.016\<close>
  against a computed width of \<open>0.01\<close>, and with the long TWAP at \<open>110\<close> the evaluator
  returns the no-op.
\<close>

theorem width_is_measured_against_twap:
  "position (ctx_vault (widthCtx 90 110 93 95 (1 / 10))) =
     Some \<lparr>pos_lower = 90, pos_upper = 110, pos_liquidity = 2, pos_liquidityUsd = None, lastRebalanceMs = 0\<rparr> \<and>
   \<not> priceOutOfRange (widthCtx 90 110 93 95 (1 / 10)) \<and>
   rangeWidthOf \<lparr>pos_lower = 90, pos_upper = 110, pos_liquidity = 2, pos_liquidityUsd = None, lastRebalanceMs = 0\<rparr> =
     bandWidth (widthCtx 90 110 93 95 (1 / 10)) \<and>
   shouldRebalance (rangeAroundTwapDecide (widthCtx 90 110 93 95 (1 / 10))) \<and>
   position (ctx_vault (widthCtx (492 / 5) (508 / 5) 100 110 (1 / 100))) =
     Some \<lparr>pos_lower = 492 / 5, pos_upper = 508 / 5, pos_liquidity = 2, pos_liquidityUsd = None, lastRebalanceMs = 0\<rparr> \<and>
   \<bar>rangeWidthOf \<lparr>pos_lower = 492 / 5, pos_upper = 508 / 5, pos_liquidity = 2, pos_liquidityUsd = None, lastRebalanceMs = 0\<rparr>
      - bandWidth (widthCtx (492 / 5) (508 / 5) 100 110 (1 / 100))\<bar> > 5 / 1000 \<and>
   rangeAroundTwapDecide (widthCtx (492 / 5) (508 / 5) 100 110 (1 / 100)) =
     noop ''Price inside range; width stable''"
  by (simp add: widthCtx_bandWidth widthCtx_parts rangeWidthOf_def rangeAroundTwapDecide_def
        priceOutOfRange_def widthChanged_def isWorthRebalance_def estimateFeeGain_def
        strategyTotalVaultValue_def defaultParams_def Let_def)

lemma xgt_irrefl: "\<not> xgt a a"
  by (cases a) auto

lemma xgt_trans_le: "xgt a b \<Longrightarrow> \<not> xgt c b \<Longrightarrow> xgt a c"
  by (cases a; cases b; cases c) auto

lemma xgt_le_trans: "\<not> xgt a b \<Longrightarrow> \<not> xgt b c \<Longrightarrow> \<not> xgt a c"
  by (cases a; cases b; cases c) auto

lemma xgt_asym: "xgt a b \<Longrightarrow> \<not> xgt b a"
  by (cases a; cases b) auto

lemma pickBest_snoc:
  "pickBest (ss @ [s]) ctx = pickStep ctx (pickBest ss ctx) s"
  by (simp add: pickBest_def)

lemma pickBest_invariant:
  assumes fin: "\<forall>s \<in> set strategies. shouldRebalance (decide s ctx) \<longrightarrow> score (decide s ctx) \<noteq> NegInf"
  shows "((\<forall>s \<in> set strategies. \<not> shouldRebalance (decide s ctx)) \<and>
            pickBest strategies ctx = noop ''No strategies'') \<or>
         (\<exists>i. isBestAt strategies ctx i \<and>
               pickBest strategies ctx =
                 (decide (strategies ! i) ctx)\<lparr>strategy := Some (strat_name (strategies ! i))\<rparr>)"
  using fin
proof (induction strategies rule: rev_induct)
  case Nil
  then show ?case by (simp add: pickBest_def)
next
  case (snoc s ss)
  let ?d = "decide s ctx"
  have finss: "\<forall>s \<in> set ss. shouldRebalance (decide s ctx) \<longrightarrow> score (decide s ctx) \<noteq> NegInf"
    using snoc.prems by simp
  note IH = snoc.IH[OF finss]
  have nth_old: "\<And>j. j < length ss \<Longrightarrow> (ss @ [s]) ! j = ss ! j" by (simp add: nth_append)
  have nth_new: "(ss @ [s]) ! length ss = s" by simp
  from IH show ?case
  proof
    assume none: "(\<forall>s \<in> set ss. \<not> shouldRebalance (decide s ctx)) \<and> pickBest ss ctx = noop ''No strategies''"
    show ?thesis
    proof (cases "shouldRebalance ?d")
      case False
      then show ?thesis using none by (simp add: pickBest_snoc pickStep_def)
    next
      case True
      then have "score ?d \<noteq> NegInf" using snoc.prems by simp
      then have gt: "xgt (score ?d) NegInf" by (cases "score ?d") auto
      have nact: "\<And>j. j < length ss \<Longrightarrow> \<not> shouldRebalance (decide (ss ! j) ctx)"
        using none by simp
      have "isBestAt (ss @ [s]) ctx (length ss)"
        unfolding isBestAt_def using True nact
        by (auto simp add: nth_append xgt_irrefl less_Suc_eq)
      moreover have "pickBest (ss @ [s]) ctx = ?d\<lparr>strategy := Some (strat_name s)\<rparr>"
        using none True gt by (simp add: pickBest_snoc pickStep_def noop_def)
      ultimately show ?thesis by (metis nth_new)
    qed
  next
    assume "\<exists>i. isBestAt ss ctx i \<and>
               pickBest ss ctx = (decide (ss ! i) ctx)\<lparr>strategy := Some (strat_name (ss ! i))\<rparr>"
    then obtain i where bi: "isBestAt ss ctx i"
      and pb: "pickBest ss ctx = (decide (ss ! i) ctx)\<lparr>strategy := Some (strat_name (ss ! i))\<rparr>"
      by blast
    let ?b = "decide (ss ! i) ctx"
    have i: "i < length ss" and acti: "shouldRebalance ?b"
      and le: "\<And>j. j < length ss \<Longrightarrow> shouldRebalance (decide (ss ! j) ctx) \<Longrightarrow>
                   \<not> xgt (score (decide (ss ! j) ctx)) (score ?b)"
      and lt: "\<And>j. j < i \<Longrightarrow> shouldRebalance (decide (ss ! j) ctx) \<Longrightarrow>
                   xgt (score ?b) (score (decide (ss ! j) ctx))"
      using bi by (auto simp add: isBestAt_def)
    have sc: "score (pickBest ss ctx) = score ?b" using pb by simp
    show ?thesis
    proof (cases "shouldRebalance ?d \<and> xgt (score ?d) (score ?b)")
      case True
      have "isBestAt (ss @ [s]) ctx (length ss)"
        unfolding isBestAt_def
      proof (intro conjI allI impI)
        show "length ss < length (ss @ [s])" by simp
        show "shouldRebalance (decide ((ss @ [s]) ! length ss) ctx)" using True by simp
      next
        fix j assume j: "j < length (ss @ [s])" and a: "shouldRebalance (decide ((ss @ [s]) ! j) ctx)"
        show "\<not> xgt (score (decide ((ss @ [s]) ! j) ctx)) (score (decide ((ss @ [s]) ! length ss) ctx))"
        proof (cases "j < length ss")
          case jl: True
          then have "\<not> xgt (score (decide (ss ! j) ctx)) (score ?b)" using le a by (simp add: nth_append)
          then have "xgt (score ?d) (score (decide (ss ! j) ctx))" using True xgt_trans_le by blast
          then show ?thesis using jl by (simp add: nth_append xgt_asym)
        next
          case False
          then have "j = length ss" using j by simp
          then show ?thesis by (simp add: xgt_irrefl)
        qed
      next
        fix j assume j: "j < length ss" and a: "shouldRebalance (decide ((ss @ [s]) ! j) ctx)"
        then have "\<not> xgt (score (decide (ss ! j) ctx)) (score ?b)" using le by (simp add: nth_append)
        then have "xgt (score ?d) (score (decide (ss ! j) ctx))" using True xgt_trans_le by blast
        then show "xgt (score (decide ((ss @ [s]) ! length ss) ctx)) (score (decide ((ss @ [s]) ! j) ctx))"
          using j by (simp add: nth_append)
      qed
      moreover have "pickBest (ss @ [s]) ctx = ?d\<lparr>strategy := Some (strat_name s)\<rparr>"
        using True sc by (simp add: pickBest_snoc pickStep_def)
      ultimately show ?thesis by (metis nth_new)
    next
      case False
      have "isBestAt (ss @ [s]) ctx i"
        unfolding isBestAt_def
      proof (intro conjI allI impI)
        show "i < length (ss @ [s])" using i by simp
        show "shouldRebalance (decide ((ss @ [s]) ! i) ctx)" using acti i by (simp add: nth_append)
      next
        fix j assume j: "j < length (ss @ [s])" and a: "shouldRebalance (decide ((ss @ [s]) ! j) ctx)"
        show "\<not> xgt (score (decide ((ss @ [s]) ! j) ctx)) (score (decide ((ss @ [s]) ! i) ctx))"
        proof (cases "j < length ss")
          case True
          then show ?thesis using le a i by (simp add: nth_append)
        next
          case jn: False
          then have "j = length ss" using j by simp
          then show ?thesis using a False i by (simp add: nth_append)
        qed
      next
        fix j assume j: "j < i" and a: "shouldRebalance (decide ((ss @ [s]) ! j) ctx)"
        then show "xgt (score (decide ((ss @ [s]) ! i) ctx)) (score (decide ((ss @ [s]) ! j) ctx))"
          using lt i by (simp add: nth_append)
      qed
      moreover have "pickBest (ss @ [s]) ctx = pickBest ss ctx"
        using False sc by (auto simp add: pickBest_snoc pickStep_def)
      ultimately show ?thesis using pb i by (auto simp add: nth_append)
    qed
  qed
qed

lemma default_scores_finite:
  "\<forall>s \<in> set createDefaultStrategies. shouldRebalance (decide s ctx) \<longrightarrow> score (decide s ctx) \<noteq> NegInf"
  by (simp add: createDefaultStrategies_def rangeAroundTwapDecide_def trendSkewDecide_def
        inventoryTargetDecide_def rewardCompoundDecide_def noop_def Let_def)

text \<open>
  Claim C3 (runner selection). On the default strategies, in the order range-around-twap,
  trend-skew, inventory-target, reward-compound, \<open>pickBest\<close> returns a decision that does
  not rebalance exactly when no evaluator's decision does, and then it is the no-op with
  score \<open>-Infinity\<close> and the single action \<open>NOOP\<close>. Otherwise it returns, tagged with the
  strategy's name, the decision of the first strategy in that order whose decision has
  the greatest score among those that rebalance.
\<close>

theorem runner_selection:
  "(\<not> shouldRebalance (pickBest createDefaultStrategies ctx) \<longleftrightarrow>
      (\<forall>s \<in> set createDefaultStrategies. \<not> shouldRebalance (decide s ctx))) \<and>
   ((\<forall>s \<in> set createDefaultStrategies. \<not> shouldRebalance (decide s ctx)) \<longrightarrow>
      score (pickBest createDefaultStrategies ctx) = NegInf \<and>
      actions (pickBest createDefaultStrategies ctx) = [NOOP]) \<and>
   ((\<exists>s \<in> set createDefaultStrategies. shouldRebalance (decide s ctx)) \<longrightarrow>
      (\<exists>i. isBestAt createDefaultStrategies ctx i \<and>
           pickBest createDefaultStrategies ctx =
             (decide (createDefaultStrategies ! i) ctx)
               \<lparr>strategy := Some (strat_name (createDefaultStrategies ! i))\<rparr>)) \<and>
   map strat_name createDefaultStrategies =
     [''range-around-twap'', ''trend-skew'', ''inventory-target'', ''reward-compound'']"
proof -
  let ?ss = createDefaultStrategies
  have inv: "((\<forall>s \<in> set ?ss. \<not> shouldRebalance (decide s ctx)) \<and>
                pickBest ?ss ctx = noop ''No strategies'') \<or>
             (\<exists>i. isBestAt ?ss ctx i \<and>
                pickBest ?ss ctx = (decide (?ss ! i) ctx)\<lparr>strategy := Some (strat_name (?ss ! i))\<rparr>)"
    by (rule pickBest_invariant[OF default_scores_finite])
  have act: "\<And>i. isBestAt ?ss ctx i \<Longrightarrow> \<exists>s \<in> set ?ss. shouldRebalance (decide s ctx)"
    unfolding isBestAt_def using nth_mem by blast
  have a: "\<not> shouldRebalance (pickBest ?ss ctx) \<longleftrightarrow> (\<forall>s \<in> set ?ss. \<not> shouldRebalance (decide s ctx))"
    using inv act by (auto simp add: noop_def isBestAt_def)
  have b: "(\<forall>s \<in> set ?ss. \<not> shouldRebalance (decide s ctx)) \<longrightarrow>
             score (pickBest ?ss ctx) = NegInf \<and> actions (pickBest ?ss ctx) = [NOOP]"
    using inv act by (auto simp add: noop_def)
  have c: "(\<exists>s \<in> set ?ss. shouldRebalance (decide s ctx)) \<longrightarrow>
             (\<exists>i. isBestAt ?ss ctx i \<and>
                pickBest ?ss ctx = (decide (?ss ! i) ctx)\<lparr>strategy := Some (strat_name (?ss ! i))\<rparr>)"
    using inv by blast
  have d: "map strat_name ?ss =
             [''range-around-twap'', ''trend-skew'', ''inventory-target'', ''reward-compound'']"
    by (simp add: createDefaultStrategies_def)
  show ?thesis using a b c d by blast
qed

theorem runner_selection_witness:
  "shouldRebalance (decide (createDefaultStrategies ! 0) (exampleCtx (11 / 2) (1 / 100))) \<and>
   shouldRebalance (decide (createDefaultStrategies ! 1) (exampleCtx (11 / 2) (1 / 100))) \<and>
   score (decide (createDefaultStrategies ! 1) (exampleCtx (11 / 2) (1 / 100))) =
     score (decide (createDefaultStrategies ! 0) (exampleCtx (11 / 2) (1 / 100))) \<and>
   strategy (pickBest createDefaultStrategies (exampleCtx (11 / 2) (1 / 100))) = Some ''range-around-twap'' \<and>
   \<not> shouldRebalance (pickBest createDefaultStrategies (exampleCtx 5 (6 / 10))) \<and>
   score (pickBest createDefaultStrategies (exampleCtx 5 (6 / 10))) = NegInf"
  using runner_selection[of "exampleCtx (11 / 2) (1 / 100)"] runner_selection[of "exampleCtx 5 (6 / 10)"]
  by (simp add: exampleCtx_def examplePool_def exampleVault_def exampleRange_def defaultParams_def
        estimateFeeGain_def strategyTotalVaultValue_def priceOutOfRange_def widthChanged_def
        createDefaultStrategies_def rangeAroundTwapDecide_def trendSkewDecide_def
        inventoryTargetDecide_def rewardCompoundDecide_def pickBest_def pickStep_def noop_def
        isWorthRebalance_def Let_def bandWidth_def volToBandWidth_def clamp_def)

section \<open>Properties of the summary statistics\<close>

lemma drawdownAt_append:
  "i < length vs \<Longrightarrow> drawdownAt (vs @ [v]) i = drawdownAt vs i"
  by (simp add: drawdownAt_def runningPeak_def nth_append)

lemma drawdownAt_first: "vs \<noteq> [] \<Longrightarrow> drawdownAt vs 0 = 0"
  by (cases vs) (simp_all add: drawdownAt_def runningPeak_def)

lemma drawdown_image_snoc:
  "drawdownAt (vs @ [v]) ` {..<length (vs @ [v])} =
     insert (drawdownAt (vs @ [v]) (length vs)) (drawdownAt vs ` {..<length vs})"
proof -
  have "{..<length (vs @ [v])} = insert (length vs) {..<length vs}" by auto
  moreover have "drawdownAt (vs @ [v]) ` {..<length vs} = drawdownAt vs ` {..<length vs}"
    by (rule image_cong) (simp_all add: drawdownAt_append)
  ultimately show ?thesis by simp
qed

lemma drawdown_last:
  "vs \<noteq> [] \<Longrightarrow> drawdownAt (vs @ [v]) (length vs) = (max (Max (set vs)) v - v) / max (Max (set vs)) v"
  by (simp add: drawdownAt_def runningPeak_def max.commute)

lemma drawdown_max_nonneg:
  assumes "vs \<noteq> []"
  shows "0 \<le> Max (drawdownAt vs ` {..<length vs})"
proof -
  have "drawdownAt vs 0 \<in> drawdownAt vs ` {..<length vs}" using assms by auto
  then have "drawdownAt vs 0 \<le> Max (drawdownAt vs ` {..<length vs})" by simp
  then show ?thesis using drawdownAt_first[OF assms] by simp
qed

lemma drawdownStep_Fin:
  assumes "0 \<le> D"
  shows "drawdownStep (Fin M, D) x =
           (Fin (max M (valueUsd x)), max ((max M (valueUsd x) - valueUsd x) / max M (valueUsd x)) D)"
proof -
  define v where "v = valueUsd x"
  define P where "P = max M v"
  have pk: "(if xgt (Fin v) (Fin M) then Fin v else Fin M) = Fin P"
    by (simp add: P_def max_def)
  have dd: "(if (if P > 0 then (P - v) / P else 0) > D then (if P > 0 then (P - v) / P else 0) else D)
              = max ((P - v) / P) D"
  proof (cases "P > 0")
    case True
    then show ?thesis by (simp add: max_def)
  next
    case False
    have a: "0 \<le> P - v" by (simp add: P_def)
    have b: "P \<le> 0" using False by linarith
    have "(P - v) / P \<le> 0" using a b by (rule divide_nonneg_nonpos)
    then show ?thesis using assms False by (simp add: max_def)
  qed
  have "drawdownStep (Fin M, D) x =
          (Fin P, (if (if P > 0 then (P - v) / P else 0) > D then (if P > 0 then (P - v) / P else 0) else D))"
    unfolding drawdownStep_def Let_def fst_conv snd_conv v_def[symmetric] pk by simp
  then show ?thesis unfolding dd by (simp add: P_def v_def)
qed

lemma drawdown_fold:
  "xs \<noteq> [] \<Longrightarrow>
     foldl drawdownStep (NegInf, 0) xs =
       (Fin (Max (set (map valueUsd xs))),
        Max (drawdownAt (map valueUsd xs) ` {..<length xs}))"
proof (induction xs rule: rev_induct)
  case Nil
  then show ?case by simp
next
  case (snoc x xs)
  show ?case
  proof (cases "xs = []")
    case True
    have "{..<Suc 0} = {0}" by auto
    then show ?thesis using True
      by (simp add: drawdownStep_def drawdownAt_def runningPeak_def)
  next
    case False
    define vs where "vs = map valueUsd xs"
    define v where "v = valueUsd x"
    define M where "M = Max (set vs)"
    define D where "D = Max (drawdownAt vs ` {..<length vs})"
    have ne: "vs \<noteq> []" using False by (simp add: vs_def)
    have st: "foldl drawdownStep (NegInf, 0) xs = (Fin M, D)"
      using snoc.IH[OF False] by (simp add: M_def D_def vs_def)
    have D0: "0 \<le> D" using drawdown_max_nonneg[OF ne] by (simp add: D_def)
    have Mx: "Max (set (vs @ [v])) = max M v"
      using ne by (simp add: max.commute M_def)
    have img: "drawdownAt (vs @ [v]) ` {..<length (vs @ [v])} =
                 insert ((max M v - v) / max M v) (drawdownAt vs ` {..<length vs})"
      using drawdown_image_snoc[of vs v] drawdown_last[OF ne, of v] by (simp add: M_def)
    have fin: "finite (drawdownAt vs ` {..<length vs})" by simp
    have nonempty: "drawdownAt vs ` {..<length vs} \<noteq> {}"
      using ne by (auto simp add: lessThan_empty_iff)
    have MaxNew: "Max (drawdownAt (vs @ [v]) ` {..<length (vs @ [v])}) = max ((max M v - v) / max M v) D"
      unfolding img D_def using fin nonempty by (rule Max_insert)
    have "foldl drawdownStep (NegInf, 0) (xs @ [x]) = drawdownStep (Fin M, D) x"
      using st by simp
    also have "\<dots> = (Fin (max M v), max ((max M v - v) / max M v) D)"
      using drawdownStep_Fin[OF D0] by (simp add: v_def)
    also have "\<dots> = (Fin (Max (set (vs @ [v]))), Max (drawdownAt (vs @ [v]) ` {..<length (vs @ [v])}))"
      using Mx MaxNew by simp
    finally show ?thesis by (simp add: vs_def v_def)
  qed
qed

text \<open>
  Claim C8 (maximum drawdown). On a non-empty equity curve \<open>computeMaxDrawdown\<close> returns
  the greatest drawdown from the running peak, as a percentage; the running peak starts
  at \<open>-Infinity\<close>, so the first point has drawdown \<open>0\<close>. On the values
  \<open>[100, 120, 90, 150]\<close> it returns \<open>25\<close>.
\<close>

theorem max_drawdown_correct:
  "(equity \<noteq> [] \<longrightarrow> computeMaxDrawdown equity = maxDrawdownSpec (map valueUsd equity)) \<and>
   computeMaxDrawdown (equityOf [100, 120, 90, 150]) = 25"
proof
  show "equity \<noteq> [] \<longrightarrow> computeMaxDrawdown equity = maxDrawdownSpec (map valueUsd equity)"
    by (simp add: computeMaxDrawdown_def maxDrawdownSpec_def drawdown_fold)
  show "computeMaxDrawdown (equityOf [100, 120, 90, 150]) = 25"
    by (simp add: computeMaxDrawdown_def equityOf_def drawdownStep_def)
qed

theorem max_drawdown_correct_witness:
  "equityOf [100, 120, 90, 150] \<noteq> [] \<and> maxDrawdownSpec [100, 120, 90, 150] = 25"
  using max_drawdown_correct[of "equityOf [100, 120, 90, 150]"]
  by (simp add: equityOf_def)

section \<open>Properties of the backtest run\<close>

lemma seedInitialPosition_total:
  "\<exists>v. seedInitialPosition vault pool config now = Inr v"
proof -
  obtain b q L where
    "addLiquidityAmounts (baseBalance vault) (quoteBalance vault)
       (pool_price pool * (1 - clamp (volToBandWidth (vol pool) (targetRebalanceHours (cfg_rebalanceParams config))
                           (bandWidthK (cfg_rebalanceParams config)))
                        (minBandWidth (cfg_rebalanceParams config))
                        (maxBandWidth (cfg_rebalanceParams config))))
       (pool_price pool * (1 + clamp (volToBandWidth (vol pool) (targetRebalanceHours (cfg_rebalanceParams config))
                           (bandWidthK (cfg_rebalanceParams config)))
                        (minBandWidth (cfg_rebalanceParams config))
                        (maxBandWidth (cfg_rebalanceParams config))))
       (pool_price pool) = Sized b q L"
    using addLiquidityAmounts_sized by blast
  then show ?thesis by (simp add: seedInitialPosition_def Let_def)
qed

lemma addLiquidity_total: "\<exists>v. addLiquidity vault price lower upper amountUsd ts = Inr v"
proof -
  obtain b q L where "addLiquidityAmounts (baseBalance vault) (quoteBalance vault) lower upper price = Sized b q L"
    using addLiquidityAmounts_sized by blast
  then show ?thesis by (simp add: addLiquidity_def)
qed

lemma applyAction_total: "\<exists>v. applyAction vault pool ts spreadBps impactBps a = Inr v"
  by (cases a) (simp_all add: addLiquidity_total)

lemma applyActions_total: "\<exists>v. applyActions vault pool ts spreadBps impactBps as = Inr v"
proof (induction as arbitrary: vault)
  case Nil
  then show ?case by simp
next
  case (Cons a as)
  obtain v where "applyAction vault pool ts spreadBps impactBps a = Inr v"
    using applyAction_total by blast
  then show ?case using Cons.IH[of v] by simp
qed

lemma applyDecision_total:
  "\<exists>v st e. applyDecision vault pool decision stats ts spreadBps impactBps mevBpsV = Inr (v, st, e)"
proof (cases "list_ex (\<lambda>a. actionType a \<noteq> ''NOOP'') (actions decision)")
  case False
  then show ?thesis by (simp add: applyDecision_def)
next
  case True
  show ?thesis
    unfolding applyDecision_def Let_def using True
    by (simp split: sum.splits) (metis applyActions_total sum.distinct(1) old.sum.exhaust)
qed

lemma seedIfNeeded_total: "\<exists>v n. seedIfNeeded clock config pool vault reads = Inr (v, n)"
  using seedInitialPosition_total[of vault pool config "clock reads"]
  by (auto simp add: seedIfNeeded_def)

lemma decideAndApply_total:
  "\<exists>v st l. decideAndApply config i point pool vault stats actionsLog = Inr (v, st, l)"
proof -
  obtain v st e where
    "applyDecision vault pool
         (pickBest createDefaultStrategies
            \<lparr>ctx_pool = pool, ctx_vault = vault, ctx_params = cfg_rebalanceParams config, nowMs = mp_ts point\<rparr>)
         stats (mp_ts point)
         (case swapSpreadBps (cfg_rebalanceParams config) of None \<Rightarrow> 10 | Some b \<Rightarrow> b)
         (case priceImpactBps (cfg_rebalanceParams config) of None \<Rightarrow> 5 | Some b \<Rightarrow> b)
         (case mevBps (cfg_rebalanceParams config) of None \<Rightarrow> 30 | Some b \<Rightarrow> b) = Inr (v, st, e)"
    using applyDecision_total by blast
  then show ?thesis by (simp add: decideAndApply_def Let_def)
qed

lemma tick_total:
  "\<exists>s'. tick clock config vw tws twl i point s = Inr s' \<and>
        ls_equityCurve s' = ls_equityCurve s @
          [\<lparr>eq_ts = mp_ts point, valueUsd = totalVaultValue (ls_vault s') (mp_price point),
            eq_price = mp_price point\<rparr>]"
proof -
  define returns where "returns = (if i > 0 then ls_returns s @ [ln (mp_price point / ls_lastPrice s)] else ls_returns s)"
  define pool where "pool = buildSnapshot config point
      (computeAnnualizedVol returns vw (timeStepMinutes config))
      (computeTwap (ls_prices s @ [mp_price point]) tws)
      (computeTwap (ls_prices s @ [mp_price point]) twl)"
  define uv where "uv = updateVault (ls_vault s) pool (ls_lastPrice s) (mp_price point)
      (timeStepMinutes config / (24 * 60)) (ls_stats s)
      (case avgPoolRangeWidth (cfg_rebalanceParams config) of None \<Rightarrow> 2 / 10 | Some w \<Rightarrow> w)"
  obtain v2 n2 where seed: "seedIfNeeded clock config pool (fst uv) (ls_clockReads s) = Inr (v2, n2)"
    using seedIfNeeded_total by blast
  obtain v3 st3 l3 where da: "decideAndApply config i point pool v2 (snd uv) (ls_actionsLog s) = Inr (v3, st3, l3)"
    using decideAndApply_total by blast
  show ?thesis
    unfolding tick_def Let_def
    using seed da
    by (simp add: returns_def pool_def uv_def split_beta)
qed

lemma mainLoop_total:
  "\<exists>s'. mainLoop clock config vw tws twl i pts s = Inr s' \<and>
        map eq_ts (ls_equityCurve s') = map eq_ts (ls_equityCurve s) @ map mp_ts pts \<and>
        map eq_price (ls_equityCurve s') = map eq_price (ls_equityCurve s) @ map mp_price pts"
proof (induction pts arbitrary: i s)
  case Nil
  then show ?case by simp
next
  case (Cons p ps)
  obtain s1 where t: "tick clock config vw tws twl i p s = Inr s1"
    and e: "ls_equityCurve s1 = ls_equityCurve s @
          [\<lparr>eq_ts = mp_ts p, valueUsd = totalVaultValue (ls_vault s1) (mp_price p), eq_price = mp_price p\<rparr>]"
    using tick_total by blast
  obtain s' where "mainLoop clock config vw tws twl (Suc i) ps s1 = Inr s'"
    and "map eq_ts (ls_equityCurve s') = map eq_ts (ls_equityCurve s1) @ map mp_ts ps"
    and "map eq_price (ls_equityCurve s') = map eq_price (ls_equityCurve s1) @ map mp_price ps"
    using Cons.IH[of "Suc i" s1] by blast
  then show ?case using t e by simp
qed

lemma runBacktest_total:
  assumes "series \<noteq> []"
  shows "\<exists>r n. runBacktest clock config series = Inr r \<and>
          generatedAt (meta r) = clock n \<and>
          map eq_ts (equityCurve r) = map mp_ts series \<and>
          map eq_price (equityCurve r) = map mp_price series"
proof -
  obtain first rest where sr: "series = first # rest" using assms by (cases series) auto
  define vw where "vw = max 2 (js_round ((volDays (windows config) * 24 * 60) / timeStepMinutes config))"
  define tws where "tws = max 2 (js_round ((twapShortHours (windows config) * 60) / timeStepMinutes config))"
  define twl where "twl = max 2 (js_round ((twapLongHours (windows config) * 60) / timeStepMinutes config))"
  define s0 where "s0 = \<lparr>ls_vault = \<lparr>baseBalance = initialCapitalUsd config / 2 / mp_price first,
                       quoteBalance = initialCapitalUsd config / 2,
                       position = None, unclaimedRewardsUsd = 0\<rparr>,
                    ls_stats = \<lparr>st_feesUsd = 0, st_emissionsUsd = 0, st_gasUsd = 0, st_mevUsd = 0, st_rebalances = 0\<rparr>,
                    ls_returns = [], ls_prices = [],
                    ls_equityCurve = [], ls_actionsLog = [], ls_lastPrice = mp_price first,
                    ls_clockReads = 0\<rparr>"
  obtain s' where ml: "mainLoop clock config vw tws twl 0 series s0 = Inr s'"
    and a: "map eq_ts (ls_equityCurve s') = map eq_ts (ls_equityCurve s0) @ map mp_ts series"
    and b: "map eq_price (ls_equityCurve s') = map eq_price (ls_equityCurve s0) @ map mp_price series"
    using mainLoop_total by blast
  have "runBacktest clock config series = Inr (buildResult clock config vw tws twl series s')"
    using ml unfolding runBacktest_def sr Let_def vw_def tws_def twl_def s0_def by simp
  moreover have "generatedAt (meta (buildResult clock config vw tws twl series s')) = clock (ls_clockReads s')"
    by (simp add: buildResult_def Let_def)
  moreover have "equityCurve (buildResult clock config vw tws twl series s') = ls_equityCurve s'"
    by (simp add: buildResult_def Let_def)
  ultimately show ?thesis using a b by (auto simp add: s0_def)
qed

text \<open>
  Claim C9 (result shape), as amended. On an empty series \<open>runBacktest\<close> fails with
  \<open>NoData\<close> and gives no result. On a non-empty series it returns a result whose equity
  curve has one entry for each market point, with the time stamps of the points in the
  order of the series: the curve is ascending in time exactly when the series is.
\<close>

theorem backtest_result_shape:
  "runBacktest clock config [] = Inl NoData \<and>
   (series \<noteq> [] \<longrightarrow>
      (\<exists>r. runBacktest clock config series = Inr r \<and>
           length (equityCurve r) = length series \<and>
           map eq_ts (equityCurve r) = map mp_ts series \<and>
           (sorted (map eq_ts (equityCurve r)) \<longleftrightarrow> sorted (map mp_ts series))))"
proof
  show "runBacktest clock config [] = Inl NoData" by (simp add: runBacktest_def)
  show "series \<noteq> [] \<longrightarrow>
      (\<exists>r. runBacktest clock config series = Inr r \<and>
           length (equityCurve r) = length series \<and>
           map eq_ts (equityCurve r) = map mp_ts series \<and>
           (sorted (map eq_ts (equityCurve r)) \<longleftrightarrow> sorted (map mp_ts series)))"
  proof
    assume "series \<noteq> []"
    then obtain r where r: "runBacktest clock config series = Inr r"
      and m: "map eq_ts (equityCurve r) = map mp_ts series"
      using runBacktest_total by blast
    have "length (equityCurve r) = length series" using m by (metis length_map)
    then show "\<exists>r. runBacktest clock config series = Inr r \<and>
           length (equityCurve r) = length series \<and>
           map eq_ts (equityCurve r) = map mp_ts series \<and>
           (sorted (map eq_ts (equityCurve r)) \<longleftrightarrow> sorted (map mp_ts series))"
      using r m by simp
  qed
qed

theorem backtest_result_shape_witness:
  "[examplePoint 0, examplePoint 3600000] \<noteq> [] \<and>
   (\<exists>r. runBacktest (\<lambda>n. 0) exampleConfig [examplePoint 0, examplePoint 3600000] = Inr r \<and>
        length (equityCurve r) = 2 \<and>
        map eq_ts (equityCurve r) = [0, 3600000] \<and>
        sorted (map eq_ts (equityCurve r)))"
  using backtest_result_shape[of "\<lambda>n. 0" exampleConfig "[examplePoint 0, examplePoint 3600000]"]
  by (auto simp add: examplePoint_def)

text \<open>
  The claim C9 as it is stated fails on a series that is not in ascending order: the
  equity curve follows the order of the series.
\<close>

theorem unsorted_series_gives_unsorted_curve:
  "[examplePoint 3600000, examplePoint 0] \<noteq> [] \<and>
   (\<exists>r. runBacktest (\<lambda>n. 0) exampleConfig [examplePoint 3600000, examplePoint 0] = Inr r \<and>
        map eq_ts (equityCurve r) = [3600000, 0] \<and>
        \<not> sorted (map eq_ts (equityCurve r)))"
proof -
  obtain r n where r: "runBacktest (\<lambda>n. 0) exampleConfig [examplePoint 3600000, examplePoint 0] = Inr r"
    and m: "map eq_ts (equityCurve r) = map mp_ts [examplePoint 3600000, examplePoint 0]"
    using runBacktest_total[of "[examplePoint 3600000, examplePoint 0]" "\<lambda>n. 0" exampleConfig] by auto
  have "map eq_ts (equityCurve r) = [3600000, 0]" using m by (simp add: examplePoint_def)
  then show ?thesis using r by simp
qed

lemma forgetTime_fields [simp]:
  "baseBalance (forgetTime v) = baseBalance v"
  "quoteBalance (forgetTime v) = quoteBalance v"
  "unclaimedRewardsUsd (forgetTime v) = unclaimedRewardsUsd v"
  "position (forgetTime v) = map_option (\<lambda>p. p\<lparr>lastRebalanceMs := 0\<rparr>) (position v)"
  by (simp_all add: forgetTime_def)

lemma forgetTime_idem [simp]: "forgetTime (forgetTime v) = forgetTime v"
  by (simp add: forgetTime_def option.map_comp comp_def)

lemma totalVaultValue_forget [simp]: "totalVaultValue (forgetTime v) price = totalVaultValue v price"
  by (cases "position v") (simp_all add: totalVaultValue_def)

lemma forgetTime_None: "position v = None \<Longrightarrow> forgetTime v = v"
  by (simp add: forgetTime_def)

lemma updateVault_forget:
  "updateVault (forgetTime v) pool lp price dt st w =
     (forgetTime (fst (updateVault v pool lp price dt st w)), snd (updateVault v pool lp price dt st w))"
proof (cases "position v")
  case None
  then have "position (fst (updateVault v pool lp price dt st w)) = None"
    by (simp add: updateVault_def Let_def)
  then show ?thesis using None by (simp add: forgetTime_None)
next
  case (Some p)
  then show ?thesis by (simp add: updateVault_def Let_def forgetTime_def)
qed

lemma deductGas_forget: "deductGas (forgetTime v) g price = forgetTime (deductGas v g price)"
  by (simp add: deductGas_def Let_def forgetTime_def)

lemma removeLiquidity_forget:
  "removeLiquidity (forgetTime v) price pct = forgetTime (removeLiquidity v price pct)"
  by (cases "position v") (simp_all add: removeLiquidity_def Let_def forgetTime_def)

lemma swapInventory_forget:
  "swapInventory (forgetTime v) price from amount liq sp im = forgetTime (swapInventory v price from amount liq sp im)"
  by (simp add: swapInventory_def Let_def forgetTime_def)

lemma claimRewards_forget: "claimRewards (forgetTime v) = forgetTime (claimRewards v)"
  by (simp add: claimRewards_def forgetTime_def)

lemma addLiquidity_forget:
  "map_sum id forgetTime (addLiquidity (forgetTime v) price lower upper amt ts) =
   map_sum id forgetTime (addLiquidity v price lower upper amt ts)"
  by (simp add: addLiquidity_def forgetTime_def option.map_comp comp_def split: sizing.splits)

lemma seedInitialPosition_forget:
  "map_sum id forgetTime (seedInitialPosition (forgetTime v) pool config now) =
   map_sum id forgetTime (seedInitialPosition v pool config now')"
  by (simp add: seedInitialPosition_def Let_def forgetTime_def option.map_comp comp_def split: sizing.splits)

lemma applyAction_forget:
  "map_sum id forgetTime (applyAction (forgetTime v) pool ts sp im a) =
   map_sum id forgetTime (applyAction v pool ts sp im a)"
  by (cases a) (simp_all add: removeLiquidity_forget swapInventory_forget claimRewards_forget addLiquidity_forget)

lemma applyAction_sim:
  assumes "forgetTime a = forgetTime b"
  shows "map_sum id forgetTime (applyAction a pool ts sp im x) = map_sum id forgetTime (applyAction b pool ts sp im x)"
  using applyAction_forget[of a pool ts sp im x] applyAction_forget[of b pool ts sp im x] assms by simp

lemma applyActions_sim:
  "forgetTime a = forgetTime b \<Longrightarrow>
   map_sum id forgetTime (applyActions a pool ts sp im xs) = map_sum id forgetTime (applyActions b pool ts sp im xs)"
proof (induction xs arbitrary: a b)
  case Nil
  then show ?case by simp
next
  case (Cons x xs)
  have s: "map_sum id forgetTime (applyAction a pool ts sp im x) = map_sum id forgetTime (applyAction b pool ts sp im x)"
    using applyAction_sim[OF Cons.prems] .
  show ?case
  proof (cases "applyAction a pool ts sp im x")
    case (Inl e)
    then have "applyAction b pool ts sp im x = Inl e" using s by (cases "applyAction b pool ts sp im x") auto
    then show ?thesis using Inl by simp
  next
    case (Inr a')
    then obtain b' where b': "applyAction b pool ts sp im x = Inr b'" and f: "forgetTime a' = forgetTime b'"
      using s by (cases "applyAction b pool ts sp im x") auto
    show ?thesis using Inr b' Cons.IH[OF f] by simp
  qed
qed

lemma tradeValueStep_forget:
  "tradeValueStep (forgetTime v) pool acc a = tradeValueStep v pool acc a"
  by (cases acc; cases a; cases "position v") simp_all

lemma totalTradeValueUsd_forget:
  "totalTradeValueUsd (forgetTime v) pool acts = totalTradeValueUsd v pool acts"
proof -
  have "tradeValueStep (forgetTime v) pool = tradeValueStep v pool"
    by (intro ext) (rule tradeValueStep_forget)
  then show ?thesis by (simp add: totalTradeValueUsd_def)
qed

lemma applyDecision_forget:
  "map_sum id forgetTime3 (applyDecision (forgetTime v) pool d st ts sp im mv) =
   map_sum id forgetTime3 (applyDecision v pool d st ts sp im mv)"
proof (cases "list_ex (\<lambda>a. actionType a \<noteq> ''NOOP'') (actions d)")
  case False
  then show ?thesis by (simp add: applyDecision_def forgetTime3_def)
next
  case True
  define mev where "mev = estimateMevCost (totalTradeValueUsd v pool (actions d)) (pool_liquidityUsd pool) (vol pool) mv"
  define v2 where "v2 = (if mev > 0 then deductGas (deductGas v (pool_gasUsd pool) (pool_price pool)) mev (pool_price pool)
                         else deductGas v (pool_gasUsd pool) (pool_price pool))"
  define w2 where "w2 = (if mev > 0 then deductGas (deductGas (forgetTime v) (pool_gasUsd pool) (pool_price pool)) mev (pool_price pool)
                         else deductGas (forgetTime v) (pool_gasUsd pool) (pool_price pool))"
  have "w2 = forgetTime v2" by (simp add: w2_def v2_def deductGas_forget)
  then have "forgetTime w2 = forgetTime v2" by simp
  then have s: "map_sum id forgetTime (applyActions w2 pool ts sp im (actions d)) =
             map_sum id forgetTime (applyActions v2 pool ts sp im (actions d))"
    by (rule applyActions_sim)
  have l: "applyDecision (forgetTime v) pool d st ts sp im mv =
        (case applyActions w2 pool ts sp im (actions d) of Inl e \<Rightarrow> Inl e
         | Inr v3 \<Rightarrow> Inr (v3, (if mev > 0 then (st\<lparr>st_gasUsd := st_gasUsd st + pool_gasUsd pool\<rparr>)\<lparr>st_mevUsd := st_mevUsd st + mev\<rparr>
                                else st\<lparr>st_gasUsd := st_gasUsd st + pool_gasUsd pool\<rparr>)\<lparr>st_rebalances := st_rebalances st + 1\<rparr>,
                 Some \<lparr>act_ts = ts, act_strategy = (case strategy d of None \<Rightarrow> ''unknown'' | Some n \<Rightarrow> if n = [] then ''unknown'' else n),
                       act_reason = reason d, act_actions = map actionType (actions d), act_gasUsd = pool_gasUsd pool\<rparr>))"
    using True unfolding applyDecision_def Let_def w2_def mev_def
    by (simp add: totalTradeValueUsd_forget split: sum.splits)
  have r: "applyDecision v pool d st ts sp im mv =
        (case applyActions v2 pool ts sp im (actions d) of Inl e \<Rightarrow> Inl e
         | Inr v3 \<Rightarrow> Inr (v3, (if mev > 0 then (st\<lparr>st_gasUsd := st_gasUsd st + pool_gasUsd pool\<rparr>)\<lparr>st_mevUsd := st_mevUsd st + mev\<rparr>
                                else st\<lparr>st_gasUsd := st_gasUsd st + pool_gasUsd pool\<rparr>)\<lparr>st_rebalances := st_rebalances st + 1\<rparr>,
                 Some \<lparr>act_ts = ts, act_strategy = (case strategy d of None \<Rightarrow> ''unknown'' | Some n \<Rightarrow> if n = [] then ''unknown'' else n),
                       act_reason = reason d, act_actions = map actionType (actions d), act_gasUsd = pool_gasUsd pool\<rparr>))"
    using True unfolding applyDecision_def Let_def v2_def mev_def
    by (simp split: sum.splits)
  show ?thesis
    unfolding l r using s
    by (cases "applyActions w2 pool ts sp im (actions d)"; cases "applyActions v2 pool ts sp im (actions d)")
       (auto simp add: forgetTime3_def)
qed


lemma bandWidth_vault: "bandWidth (ctx\<lparr>ctx_vault := v\<rparr>) = bandWidth ctx"
  by (simp add: bandWidth_def)

lemma strategy_reads_forget:
  "priceOutOfRange \<lparr>ctx_pool = pool, ctx_vault = forgetTime v, ctx_params = ps, nowMs = t\<rparr> =
     priceOutOfRange \<lparr>ctx_pool = pool, ctx_vault = v, ctx_params = ps, nowMs = t\<rparr>"
  "widthChanged \<lparr>ctx_pool = pool, ctx_vault = forgetTime v, ctx_params = ps, nowMs = t\<rparr> =
     widthChanged \<lparr>ctx_pool = pool, ctx_vault = v, ctx_params = ps, nowMs = t\<rparr>"
  "strategyTotalVaultValue \<lparr>ctx_pool = pool, ctx_vault = forgetTime v, ctx_params = ps, nowMs = t\<rparr> =
     strategyTotalVaultValue \<lparr>ctx_pool = pool, ctx_vault = v, ctx_params = ps, nowMs = t\<rparr>"
  "bandWidth \<lparr>ctx_pool = pool, ctx_vault = forgetTime v, ctx_params = ps, nowMs = t\<rparr> =
     bandWidth \<lparr>ctx_pool = pool, ctx_vault = v, ctx_params = ps, nowMs = t\<rparr>"
  "estimateFeeGain \<lparr>ctx_pool = pool, ctx_vault = forgetTime v, ctx_params = ps, nowMs = t\<rparr> c =
     estimateFeeGain \<lparr>ctx_pool = pool, ctx_vault = v, ctx_params = ps, nowMs = t\<rparr> c"
  by (cases "position v"; simp add: priceOutOfRange_def widthChanged_def strategyTotalVaultValue_def
        bandWidth_def estimateFeeGain_def)+

lemma decide_forget:
  "rangeAroundTwapDecide \<lparr>ctx_pool = pool, ctx_vault = forgetTime v, ctx_params = ps, nowMs = t\<rparr> =
     rangeAroundTwapDecide \<lparr>ctx_pool = pool, ctx_vault = v, ctx_params = ps, nowMs = t\<rparr>"
  "trendSkewDecide \<lparr>ctx_pool = pool, ctx_vault = forgetTime v, ctx_params = ps, nowMs = t\<rparr> =
     trendSkewDecide \<lparr>ctx_pool = pool, ctx_vault = v, ctx_params = ps, nowMs = t\<rparr>"
  "inventoryTargetDecide \<lparr>ctx_pool = pool, ctx_vault = forgetTime v, ctx_params = ps, nowMs = t\<rparr> =
     inventoryTargetDecide \<lparr>ctx_pool = pool, ctx_vault = v, ctx_params = ps, nowMs = t\<rparr>"
  "rewardCompoundDecide \<lparr>ctx_pool = pool, ctx_vault = forgetTime v, ctx_params = ps, nowMs = t\<rparr> =
     rewardCompoundDecide \<lparr>ctx_pool = pool, ctx_vault = v, ctx_params = ps, nowMs = t\<rparr>"
  unfolding rangeAroundTwapDecide_def trendSkewDecide_def inventoryTargetDecide_def
    rewardCompoundDecide_def strategy_reads_forget
  by (simp_all add: Let_def)

lemma pickBest_forget:
  "pickBest createDefaultStrategies \<lparr>ctx_pool = pool, ctx_vault = forgetTime v, ctx_params = ps, nowMs = t\<rparr> =
   pickBest createDefaultStrategies \<lparr>ctx_pool = pool, ctx_vault = v, ctx_params = ps, nowMs = t\<rparr>"
  by (simp add: pickBest_def createDefaultStrategies_def pickStep_def decide_forget)

lemma seedIfNeeded_forget:
  "map_sum id (map_prod forgetTime id) (seedIfNeeded c config pool (forgetTime v) n) =
   map_sum id (map_prod forgetTime id) (seedIfNeeded c' config pool v n)"
proof (cases "position v = None \<and> cfg_poolType config = CL")
  case True
  show ?thesis
    using True seedInitialPosition_forget[of v pool config "c n" "c' n"]
    by (cases "seedInitialPosition (forgetTime v) pool config (c n)";
        cases "seedInitialPosition v pool config (c' n)")
       (auto simp add: seedIfNeeded_def)
next
  case False
  then show ?thesis by (auto simp add: seedIfNeeded_def)
qed

lemma decideAndApply_forget:
  "map_sum id forgetTime3 (decideAndApply config i point pool (forgetTime v) st lg) =
   map_sum id forgetTime3 (decideAndApply config i point pool v st lg)"
proof -
  define d where "d = pickBest createDefaultStrategies
     \<lparr>ctx_pool = pool, ctx_vault = v, ctx_params = cfg_rebalanceParams config, nowMs = mp_ts point\<rparr>"
  define sp where "sp = (case swapSpreadBps (cfg_rebalanceParams config) of None \<Rightarrow> 10 | Some b \<Rightarrow> b)"
  define im where "im = (case priceImpactBps (cfg_rebalanceParams config) of None \<Rightarrow> 5 | Some b \<Rightarrow> b)"
  define mv where "mv = (case mevBps (cfg_rebalanceParams config) of None \<Rightarrow> 30 | Some b \<Rightarrow> b)"
  show ?thesis
  proof (cases "i > 0 \<and> shouldRebalance d")
    case False
    then show ?thesis
      by (auto simp add: decideAndApply_def Let_def pickBest_forget d_def forgetTime3_def)
  next
    case True
    have l: "decideAndApply config i point pool (forgetTime v) st lg =
             (case applyDecision (forgetTime v) pool d st (mp_ts point) sp im mv of
                Inl e \<Rightarrow> Inl e
              | Inr (vault', stats', entry) \<Rightarrow>
                  Inr (vault', stats', (case entry of None \<Rightarrow> lg | Some a \<Rightarrow> lg @ [a])))"
      using True by (simp add: decideAndApply_def Let_def pickBest_forget d_def sp_def im_def mv_def)
    have r: "decideAndApply config i point pool v st lg =
             (case applyDecision v pool d st (mp_ts point) sp im mv of
                Inl e \<Rightarrow> Inl e
              | Inr (vault', stats', entry) \<Rightarrow>
                  Inr (vault', stats', (case entry of None \<Rightarrow> lg | Some a \<Rightarrow> lg @ [a])))"
      using True by (simp add: decideAndApply_def Let_def d_def sp_def im_def mv_def)
    show ?thesis
      unfolding l r using applyDecision_forget[of v pool d st "mp_ts point" sp im mv]
      by (cases "applyDecision (forgetTime v) pool d st (mp_ts point) sp im mv";
          cases "applyDecision v pool d st (mp_ts point) sp im mv")
         (auto simp add: forgetTime3_def)
  qed
qed


lemma tick_result:
  assumes "seedIfNeeded clock config
             (buildSnapshot config point
                (computeAnnualizedVol (if i > 0 then ls_returns s @ [ln (mp_price point / ls_lastPrice s)] else ls_returns s)
                   vw (timeStepMinutes config))
                (computeTwap (ls_prices s @ [mp_price point]) tws)
                (computeTwap (ls_prices s @ [mp_price point]) twl))
             (fst uv) (ls_clockReads s) = Inr (v2, n2)"
    and "decideAndApply config i point
             (buildSnapshot config point
                (computeAnnualizedVol (if i > 0 then ls_returns s @ [ln (mp_price point / ls_lastPrice s)] else ls_returns s)
                   vw (timeStepMinutes config))
                (computeTwap (ls_prices s @ [mp_price point]) tws)
                (computeTwap (ls_prices s @ [mp_price point]) twl))
             v2 (snd uv) (ls_actionsLog s) = Inr (v3, st3, l3)"
    and "uv = updateVault (ls_vault s)
             (buildSnapshot config point
                (computeAnnualizedVol (if i > 0 then ls_returns s @ [ln (mp_price point / ls_lastPrice s)] else ls_returns s)
                   vw (timeStepMinutes config))
                (computeTwap (ls_prices s @ [mp_price point]) tws)
                (computeTwap (ls_prices s @ [mp_price point]) twl))
             (ls_lastPrice s) (mp_price point) (timeStepMinutes config / (24 * 60)) (ls_stats s)
             (case avgPoolRangeWidth (cfg_rebalanceParams config) of None \<Rightarrow> 2 / 10 | Some w \<Rightarrow> w)"
  shows "tick clock config vw tws twl i point s =
           Inr \<lparr>ls_vault = v3, ls_stats = st3,
                ls_returns = (if i > 0 then ls_returns s @ [ln (mp_price point / ls_lastPrice s)] else ls_returns s),
                ls_prices = ls_prices s @ [mp_price point],
                ls_equityCurve = ls_equityCurve s @
                  [\<lparr>eq_ts = mp_ts point, valueUsd = totalVaultValue v3 (mp_price point), eq_price = mp_price point\<rparr>],
                ls_actionsLog = l3, ls_lastPrice = mp_price point, ls_clockReads = n2\<rparr>"
  unfolding tick_def Let_def using assms by (simp add: split_beta)

lemma forgetTimeS_fields [simp]:
  "ls_vault (forgetTimeS s) = forgetTime (ls_vault s)"
  "ls_stats (forgetTimeS s) = ls_stats s"
  "ls_returns (forgetTimeS s) = ls_returns s"
  "ls_prices (forgetTimeS s) = ls_prices s"
  "ls_equityCurve (forgetTimeS s) = ls_equityCurve s"
  "ls_actionsLog (forgetTimeS s) = ls_actionsLog s"
  "ls_lastPrice (forgetTimeS s) = ls_lastPrice s"
  "ls_clockReads (forgetTimeS s) = ls_clockReads s"
  by (simp_all add: forgetTimeS_def)

lemma tick_sim:
  assumes eq: "forgetTimeS s1 = forgetTimeS s2"
  shows "map_sum id forgetTimeS (tick c1 config vw tws twl i point s1) =
         map_sum id forgetTimeS (tick c2 config vw tws twl i point s2)"
proof -
  have f: "forgetTime (ls_vault s1) = forgetTime (ls_vault s2)"
    using arg_cong[OF eq, of ls_vault] by simp
  have g: "ls_stats s1 = ls_stats s2" "ls_returns s1 = ls_returns s2" "ls_prices s1 = ls_prices s2"
          "ls_equityCurve s1 = ls_equityCurve s2" "ls_actionsLog s1 = ls_actionsLog s2"
          "ls_lastPrice s1 = ls_lastPrice s2" "ls_clockReads s1 = ls_clockReads s2"
    using arg_cong[OF eq, of ls_stats] arg_cong[OF eq, of ls_returns] arg_cong[OF eq, of ls_prices]
      arg_cong[OF eq, of ls_equityCurve] arg_cong[OF eq, of ls_actionsLog]
      arg_cong[OF eq, of ls_lastPrice] arg_cong[OF eq, of ls_clockReads]
    by simp_all
  define pool where "pool = buildSnapshot config point
                (computeAnnualizedVol (if i > 0 then ls_returns s1 @ [ln (mp_price point / ls_lastPrice s1)] else ls_returns s1)
                   vw (timeStepMinutes config))
                (computeTwap (ls_prices s1 @ [mp_price point]) tws)
                (computeTwap (ls_prices s1 @ [mp_price point]) twl)"
  define aw where "aw = (case avgPoolRangeWidth (cfg_rebalanceParams config) of None \<Rightarrow> 2 / 10 | Some w \<Rightarrow> (w::real))"
  define uv1 where "uv1 = updateVault (ls_vault s1) pool (ls_lastPrice s1) (mp_price point)
                            (timeStepMinutes config / (24 * 60)) (ls_stats s1) aw"
  define uv2 where "uv2 = updateVault (ls_vault s2) pool (ls_lastPrice s1) (mp_price point)
                            (timeStepMinutes config / (24 * 60)) (ls_stats s1) aw"
  have u: "forgetTime (fst uv1) = forgetTime (fst uv2)" "snd uv1 = snd uv2"
    using updateVault_forget[of "ls_vault s1" pool "ls_lastPrice s1" "mp_price point"
            "timeStepMinutes config / (24 * 60)" "ls_stats s1" aw]
          updateVault_forget[of "ls_vault s2" pool "ls_lastPrice s1" "mp_price point"
            "timeStepMinutes config / (24 * 60)" "ls_stats s1" aw] f
    by (simp_all add: uv1_def uv2_def)
  obtain a1 n1 where sd1: "seedIfNeeded c1 config pool (fst uv1) (ls_clockReads s1) = Inr (a1, n1)"
    using seedIfNeeded_total by blast
  obtain a2 n2 where sd2: "seedIfNeeded c2 config pool (fst uv2) (ls_clockReads s1) = Inr (a2, n2)"
    using seedIfNeeded_total by blast
  have "map_sum id (map_prod forgetTime id) (seedIfNeeded c1 config pool (fst uv1) (ls_clockReads s1)) =
        map_sum id (map_prod forgetTime id) (seedIfNeeded c2 config pool (fst uv2) (ls_clockReads s1))"
    using seedIfNeeded_forget[of c1 config pool "fst uv1" "ls_clockReads s1" c1]
          seedIfNeeded_forget[of c1 config pool "fst uv2" "ls_clockReads s1" c2] u(1)
    by simp
  then have a: "forgetTime a1 = forgetTime a2" "n1 = n2" using sd1 sd2 by simp_all
  obtain b1 st1 l1 where da1: "decideAndApply config i point pool a1 (snd uv1) (ls_actionsLog s1) = Inr (b1, st1, l1)"
    using decideAndApply_total by blast
  obtain b2 st2 l2 where da2: "decideAndApply config i point pool a2 (snd uv1) (ls_actionsLog s1) = Inr (b2, st2, l2)"
    using decideAndApply_total by blast
  have "map_sum id forgetTime3 (decideAndApply config i point pool a1 (snd uv1) (ls_actionsLog s1)) =
        map_sum id forgetTime3 (decideAndApply config i point pool a2 (snd uv1) (ls_actionsLog s1))"
    using decideAndApply_forget[of config i point pool a1 "snd uv1" "ls_actionsLog s1"]
          decideAndApply_forget[of config i point pool a2 "snd uv1" "ls_actionsLog s1"] a(1)
    by simp
  then have b: "forgetTime b1 = forgetTime b2" "st1 = st2" "l1 = l2"
    using da1 da2 by (simp_all add: forgetTime3_def)
  have tv: "totalVaultValue b1 (mp_price point) = totalVaultValue b2 (mp_price point)"
    using b(1) totalVaultValue_forget by metis
  have t1: "tick c1 config vw tws twl i point s1 =
           Inr \<lparr>ls_vault = b1, ls_stats = st1,
                ls_returns = (if i > 0 then ls_returns s1 @ [ln (mp_price point / ls_lastPrice s1)] else ls_returns s1),
                ls_prices = ls_prices s1 @ [mp_price point],
                ls_equityCurve = ls_equityCurve s1 @
                  [\<lparr>eq_ts = mp_ts point, valueUsd = totalVaultValue b1 (mp_price point), eq_price = mp_price point\<rparr>],
                ls_actionsLog = l1, ls_lastPrice = mp_price point, ls_clockReads = n1\<rparr>"
    by (rule tick_result[where uv = uv1 and ?v2.0 = a1])
       (use sd1 da1 in \<open>simp_all add: pool_def uv1_def aw_def\<close>)
  have t2: "tick c2 config vw tws twl i point s2 =
           Inr \<lparr>ls_vault = b2, ls_stats = st2,
                ls_returns = (if i > 0 then ls_returns s2 @ [ln (mp_price point / ls_lastPrice s2)] else ls_returns s2),
                ls_prices = ls_prices s2 @ [mp_price point],
                ls_equityCurve = ls_equityCurve s2 @
                  [\<lparr>eq_ts = mp_ts point, valueUsd = totalVaultValue b2 (mp_price point), eq_price = mp_price point\<rparr>],
                ls_actionsLog = l2, ls_lastPrice = mp_price point, ls_clockReads = n2\<rparr>"
  proof -
    have da2': "decideAndApply config i point pool a2 (snd uv2) (ls_actionsLog s1) = Inr (b2, st2, l2)"
      using da2 u(2) by simp
    show ?thesis
      by (rule tick_result[where uv = uv2 and ?v2.0 = a2])
         (use sd2 da2' in \<open>unfold pool_def uv2_def aw_def g, simp_all\<close>)
  qed
  show ?thesis
    unfolding t1 t2 using a b tv g by (simp add: forgetTimeS_def)
qed

lemma mainLoop_sim:
  "forgetTimeS s1 = forgetTimeS s2 \<Longrightarrow>
   map_sum id forgetTimeS (mainLoop c1 config vw tws twl i pts s1) =
   map_sum id forgetTimeS (mainLoop c2 config vw tws twl i pts s2)"
proof (induction pts arbitrary: i s1 s2)
  case Nil
  then show ?case by simp
next
  case (Cons p ps)
  obtain t1 where t1: "tick c1 config vw tws twl i p s1 = Inr t1" using tick_total by blast
  obtain t2 where t2: "tick c2 config vw tws twl i p s2 = Inr t2" using tick_total by blast
  have "forgetTimeS t1 = forgetTimeS t2"
    using tick_sim[OF Cons.prems, of c1 config vw tws twl i p c2] t1 t2 by simp
  then show ?case using Cons.IH t1 t2 by simp
qed

lemma buildResult_forget:
  assumes "forgetTimeS s1 = forgetTimeS s2"
  shows "withoutGeneratedAt (buildResult c1 config vw tws twl series s1) =
         withoutGeneratedAt (buildResult c2 config vw tws twl series s2)"
proof -
  have g: "ls_stats s1 = ls_stats s2" "ls_returns s1 = ls_returns s2" "ls_prices s1 = ls_prices s2"
          "ls_equityCurve s1 = ls_equityCurve s2" "ls_actionsLog s1 = ls_actionsLog s2"
    using arg_cong[OF assms, of ls_stats] arg_cong[OF assms, of ls_returns] arg_cong[OF assms, of ls_prices]
      arg_cong[OF assms, of ls_equityCurve] arg_cong[OF assms, of ls_actionsLog]
    by simp_all
  show ?thesis by (simp add: buildResult_def withoutGeneratedAt_def Let_def g)
qed

text \<open>
  Claim C1 (determinism), as amended. Two runs of \<open>runBacktest\<close> on the same
  configuration and the same series, whatever the clock returns during each, fail alike
  or return results that are equal in every field except \<open>meta.generatedAt\<close>.
\<close>

theorem determinism_up_to_clock:
  "map_sum id withoutGeneratedAt (runBacktest clock1 config series) =
   map_sum id withoutGeneratedAt (runBacktest clock2 config series)"
proof (cases series)
  case Nil
  then show ?thesis by (simp add: runBacktest_def)
next
  case (Cons first rest)
  define vw where "vw = max 2 (js_round ((volDays (windows config) * 24 * 60) / timeStepMinutes config))"
  define tws where "tws = max 2 (js_round ((twapShortHours (windows config) * 60) / timeStepMinutes config))"
  define twl where "twl = max 2 (js_round ((twapLongHours (windows config) * 60) / timeStepMinutes config))"
  define s0 where "s0 = \<lparr>ls_vault = \<lparr>baseBalance = initialCapitalUsd config / 2 / mp_price first,
                       quoteBalance = initialCapitalUsd config / 2,
                       position = None, unclaimedRewardsUsd = 0\<rparr>,
                    ls_stats = \<lparr>st_feesUsd = 0, st_emissionsUsd = 0, st_gasUsd = 0, st_mevUsd = 0, st_rebalances = 0\<rparr>,
                    ls_returns = [], ls_prices = [],
                    ls_equityCurve = [], ls_actionsLog = [], ls_lastPrice = mp_price first,
                    ls_clockReads = 0\<rparr>"
  obtain e1 where m1: "mainLoop clock1 config vw tws twl 0 series s0 = Inr e1" using mainLoop_total by blast
  obtain e2 where m2: "mainLoop clock2 config vw tws twl 0 series s0 = Inr e2" using mainLoop_total by blast
  have "forgetTimeS e1 = forgetTimeS e2"
    using mainLoop_sim[of s0 s0 clock1 config vw tws twl 0 series clock2] m1 m2 by simp
  then have w: "withoutGeneratedAt (buildResult clock1 config vw tws twl series e1) =
             withoutGeneratedAt (buildResult clock2 config vw tws twl series e2)"
    by (rule buildResult_forget)
  have r1: "runBacktest clock1 config series = Inr (buildResult clock1 config vw tws twl series e1)"
    using m1 unfolding runBacktest_def Cons Let_def vw_def tws_def twl_def s0_def by simp
  have r2: "runBacktest clock2 config series = Inr (buildResult clock2 config vw tws twl series e2)"
    using m2 unfolding runBacktest_def Cons Let_def vw_def tws_def twl_def s0_def by simp
  show ?thesis unfolding r1 r2 using w by simp
qed

theorem determinism_up_to_clock_witness:
  "map_sum id withoutGeneratedAt (runBacktest (\<lambda>n. 0) exampleConfig [examplePoint 0, examplePoint 3600000]) =
   map_sum id withoutGeneratedAt (runBacktest (\<lambda>n. 1) exampleConfig [examplePoint 0, examplePoint 3600000])"
  by (rule determinism_up_to_clock)

text \<open>
  The claim C1 as it is stated fails: \<open>meta.generatedAt\<close> is a reading of the clock, and
  two runs on the same configuration and series under clocks that differ give results
  that differ.
\<close>

theorem clock_changes_result:
  "runBacktest (\<lambda>n. 0) exampleConfig [examplePoint 0, examplePoint 3600000] \<noteq>
   runBacktest (\<lambda>n. 1) exampleConfig [examplePoint 0, examplePoint 3600000]"
proof
  assume eq: "runBacktest (\<lambda>n. 0) exampleConfig [examplePoint 0, examplePoint 3600000] =
              runBacktest (\<lambda>n. 1) exampleConfig [examplePoint 0, examplePoint 3600000]"
  obtain r0 n0 where r0: "runBacktest (\<lambda>n. 0) exampleConfig [examplePoint 0, examplePoint 3600000] = Inr r0"
    and g0: "generatedAt (meta r0) = (\<lambda>n. 0) n0"
    using runBacktest_total[of "[examplePoint 0, examplePoint 3600000]" "\<lambda>n. 0" exampleConfig] by auto
  obtain r1 n1 where r1: "runBacktest (\<lambda>n. 1) exampleConfig [examplePoint 0, examplePoint 3600000] = Inr r1"
    and g1: "generatedAt (meta r1) = (\<lambda>n. 1) n1"
    using runBacktest_total[of "[examplePoint 0, examplePoint 3600000]" "\<lambda>n. 1" exampleConfig] by auto
  have "r0 = r1" using eq r0 r1 by simp
  then show False using g0 g1 by simp
qed

end
